theory Spec2Isabelle
  imports Main "HOL-Library.Log_Nat"
begin

section \<open>The authentication provider of src/hooks/useAuth.tsx\<close>

text \<open>
  The provider keeps four pieces of React state (user, session, loading, error), one entry
  of the local key-value store, and talks to a remote backend. The embedding has three
  layers: the record transformation \<open>transformDatabaseUser\<close> as a pure function, the
  asynchronous operations as functions from the backend's replies to the sequence of
  effects they perform (state setter calls, storage calls, backend calls) together with
  the way their promise settles, and an interpreter of effects on the provider's state.
\<close>

subsection \<open>Values received from the backend\<close>

text \<open>
  A JavaScript number is an IEEE 754 double. A finite one is modelled by its value, a
  rational (the two zeros are one value: the code never divides by a zero nor prints one);
  the others are the two infinities and NaN. A number that arrives from the backend is
  a double: a value \<open>v\<close> with \<open>round_double v = Num v\<close>, as every integer of magnitude
  below \<open>2\<^sup>5\<^sup>3\<close> is.
\<close>

datatype jsnum = Num rat | PosInf | NegInf | NaN

text \<open>\<open>floor_log2 x\<close>, for \<open>x > 0\<close>, is the exponent \<open>e\<close> with \<open>2\<^sup>e \<le> x < 2\<^sup>e\<^sup>+\<^sup>1\<close>.\<close>

definition floor_log2 :: "rat \<Rightarrow> int" where
  "floor_log2 x =
    (case quotient_of x of
       (a, b) \<Rightarrow> (let d = bitlen a - bitlen b in if 2 powi d \<le> x then d else d - 1))"

text \<open>Rounding to the nearest integer, a tie to the even one.\<close>

definition round_half_even :: "rat \<Rightarrow> int" where
  "round_half_even z =
    (let f = \<lfloor>z\<rfloor>; d = z - of_int f
     in if d < 1 / 2 then f else if 1 / 2 < d then f + 1 else if even f then f else f + 1)"

text \<open>
  The result of an arithmetic operation is its exact value rounded to the nearest double,
  ties to even: a multiple of \<open>2\<^sup>e\<^sup>-\<^sup>5\<^sup>2\<close> for the exponent \<open>e\<close> of the value (53
  significant bits), of \<open>2\<^sup>-\<^sup>1\<^sup>0\<^sup>7\<^sup>4\<close> below the normal range, and an infinity when the
  rounded value reaches \<open>2\<^sup>1\<^sup>0\<^sup>2\<^sup>4\<close>.
\<close>

definition round_double :: "rat \<Rightarrow> jsnum" where
  "round_double x =
    (if x = 0 then Num 0
     else
       (let e = max (floor_log2 \<bar>x\<bar>) (- 1022);
            q = 2 powi (e - 52);
            y = of_int (round_half_even (x / q)) * q
        in if 2 ^ 1024 \<le> \<bar>y\<bar> then (if 0 < x then PosInf else NegInf) else Num y))"

text \<open>The operators of the source, with a finite constant as right operand: \<open>v - c\<close>,
  \<open>v + c\<close>, \<open>v * c\<close>, \<open>v / c\<close>, and \<open>Math.floor\<close>, \<open>Math.min\<close>.\<close>

fun js_minus :: "jsnum \<Rightarrow> rat \<Rightarrow> jsnum" where
  "js_minus (Num x) c = round_double (x - c)"
| "js_minus v c = v"

fun js_plus :: "jsnum \<Rightarrow> rat \<Rightarrow> jsnum" where
  "js_plus (Num x) c = round_double (x + c)"
| "js_plus v c = v"

fun js_times :: "jsnum \<Rightarrow> rat \<Rightarrow> jsnum" where
  "js_times (Num x) c = round_double (x * c)"
| "js_times PosInf c = (if 0 < c then PosInf else if c < 0 then NegInf else NaN)"
| "js_times NegInf c = (if 0 < c then NegInf else if c < 0 then PosInf else NaN)"
| "js_times NaN c = NaN"

fun js_divide :: "jsnum \<Rightarrow> rat \<Rightarrow> jsnum" where
  "js_divide (Num x) c =
    (if c = 0 then (if x = 0 then NaN else if 0 < x then PosInf else NegInf)
     else round_double (x / c))"
| "js_divide PosInf c = (if 0 \<le> c then PosInf else NegInf)"
| "js_divide NegInf c = (if 0 \<le> c then NegInf else PosInf)"
| "js_divide NaN c = NaN"

fun js_floor :: "jsnum \<Rightarrow> jsnum" where
  "js_floor (Num x) = Num (of_int \<lfloor>x\<rfloor>)"
| "js_floor v = v"

fun js_min :: "jsnum \<Rightarrow> jsnum \<Rightarrow> jsnum" where
  "js_min NaN b = NaN"
| "js_min a NaN = NaN"
| "js_min NegInf b = NegInf"
| "js_min a NegInf = NegInf"
| "js_min PosInf b = b"
| "js_min a PosInf = a"
| "js_min (Num x) (Num y) = Num (min x y)"

fun num_truthy :: "jsnum \<Rightarrow> bool" where
  "num_truthy (Num x) = (x \<noteq> 0)"
| "num_truthy PosInf = True"
| "num_truthy NegInf = True"
| "num_truthy NaN = False"

text \<open>A JSON value, for the one column (\<open>genetics\<close>) that the code copies without looking
  inside.\<close>

datatype json =
  JBool bool
  | JNum jsnum
  | JStr string
  | JArr "json list"
  | JObj "(string \<times> json) list"

text \<open>Truthiness, as \<open>||\<close>, \<open>!\<close> and \<open>? :\<close> test it. A value that is \<open>null\<close> is
  \<open>None\<close>, which is falsy.\<close>

fun json_truthy :: "json \<Rightarrow> bool" where
  "json_truthy (JBool b) = b"
| "json_truthy (JNum n) = num_truthy n"
| "json_truthy (JStr s) = (s \<noteq> [])"
| "json_truthy (JArr xs) = True"
| "json_truthy (JObj kvs) = True"

text \<open>\<open>x || d\<close> for a number, a string, an array or object, and \<open>x || null\<close>.\<close>

definition num_or :: "jsnum option \<Rightarrow> jsnum \<Rightarrow> jsnum" where
  "num_or x d = (case x of None \<Rightarrow> d | Some n \<Rightarrow> if num_truthy n then n else d)"

definition str_truthy :: "string option \<Rightarrow> bool" where
  "str_truthy x = (case x of None \<Rightarrow> False | Some s \<Rightarrow> s \<noteq> [])"

definition str_or :: "string option \<Rightarrow> string \<Rightarrow> string" where
  "str_or x d = (case x of None \<Rightarrow> d | Some s \<Rightarrow> if s = [] then d else s)"

definition str_or_null :: "string option \<Rightarrow> string option" where
  "str_or_null x = (if str_truthy x then x else None)"

definition obj_or :: "'a option \<Rightarrow> 'a \<Rightarrow> 'a" where
  "obj_or x d = (case x of None \<Rightarrow> d | Some v \<Rightarrow> v)"

definition json_or_null :: "json option \<Rightarrow> json option" where
  "json_or_null x = (case x of None \<Rightarrow> None | Some v \<Rightarrow> if json_truthy v then Some v else None)"

text \<open>The rows of the nested relations, as \<open>select (*)\<close> returns them: every column
  is there, with a value or \<open>null\<close> (\<open>None\<close>).\<close>

record profile_row =
  pf_first_name :: "string option"
  pf_last_name :: "string option"
  pf_age :: "jsnum option"
  pf_gender :: "string option"
  pf_health_goals :: "string list option"
  pf_conditions :: "string list option"
  pf_medications :: "string list option"
  pf_allergies :: "string list option"
  pf_genetics :: "json option"

record NotificationSettings =
  push_enabled :: bool
  email_enabled :: bool
  reminder_frequency :: string

record preferences_row =
  pref_ai_response_style :: "string option"
  pref_budget_range :: "string option"
  pref_primary_focus :: "string option"
  pref_notifications :: "NotificationSettings option"

record points_row =
  pts_total_points :: "jsnum option"
  pts_level :: "jsnum option"

record streaks_row =
  st_current_streak :: "jsnum option"
  st_longest_streak :: "jsnum option"
  st_last_activity_date :: "string option"

text \<open>\<open>DatabaseUserWithRelations\<close>. A nested relation that is \<open>null\<close> or absent is
  \<open>None\<close>; the code only tests it for truthiness, and a row is truthy.\<close>

record DatabaseUserWithRelations =
  db_id :: string
  db_auth_id :: string
  db_email :: "string option"
  db_is_anonymous :: bool
  db_display_name :: "string option"
  db_created_at :: string
  db_updated_at :: string
  db_profile :: "profile_row option"
  db_preferences :: "preferences_row option"
  db_points :: "points_row option"
  db_streaks :: "streaks_row option"
  db_roles :: "json list option"

subsection \<open>The view model\<close>

record UserProfile =
  firstName :: "string option"
  lastName :: "string option"
  age :: "jsnum option"
  gender :: "string option"
  healthGoals :: "string list"
  conditions :: "string list"
  medications :: "string list"
  allergies :: "string list"
  genetics :: "json option"

record UserPreferences =
  aiResponseStyle :: string
  budgetRange :: string
  primaryFocus :: string
  notifications :: NotificationSettings

text \<open>\<open>levelTitle\<close> is the result of an array read, which is \<open>undefined\<close> (here
  \<open>None\<close>) outside the array.\<close>

record UserPoints =
  total_field :: jsnum
  level :: jsnum
  levelTitle :: "string option"
  nextLevelAt :: jsnum

record UserStreaks =
  current :: jsnum
  longest :: jsnum
  lastActivity :: "string option"

text \<open>\<open>User\<close>. For \<open>email\<close>, \<open>None\<close> is \<open>null\<close>; for \<open>points\<close> and \<open>streaks\<close>,
  \<open>None\<close> is the \<open>undefined\<close> that the transformation writes.\<close>

record User =
  id_field :: string
  email :: "string option"
  is_anonymous :: bool
  profile :: UserProfile
  preferences :: UserPreferences
  points :: "UserPoints option"
  streaks :: "UserStreaks option"
  createdAt :: string
  updatedAt :: string

subsection \<open>\<open>getLevelTitle\<close> and \<open>transformDatabaseUser\<close>\<close>

definition titles :: "string list" where
  "titles =
    [''Health Novice'', ''Wellness Explorer'', ''Supplement Scholar'',
     ''Nutrition Navigator'', ''Health Guardian'', ''Wellness Warrior'',
     ''Supplement Sage'', ''Health Master'', ''Wellness Wizard'', ''PharmaGuide Legend'']"

text \<open>An array read \<open>xs[i]\<close> with a number as index: the element when the number is an
  integer within the array, \<open>undefined\<close> otherwise.\<close>

fun js_index :: "'a list \<Rightarrow> jsnum \<Rightarrow> 'a option" where
  "js_index xs (Num i) =
    (if of_int \<lfloor>i\<rfloor> = i \<and> 0 \<le> i \<and> i < of_nat (length xs) then Some (xs ! nat \<lfloor>i\<rfloor>)
     else None)"
| "js_index xs v = None"

definition getLevelTitle :: "jsnum \<Rightarrow> string option" where
  "getLevelTitle lvl =
    js_index titles (js_min (js_minus lvl 1) (Num (of_nat (length titles) - 1)))"

definition default_notifications :: NotificationSettings where
  "default_notifications =
    \<lparr>push_enabled = True, email_enabled = True, reminder_frequency = ''daily''\<rparr>"

fun transformDatabaseUser :: "DatabaseUserWithRelations option \<Rightarrow> User option" where
  "transformDatabaseUser None = None"
| "transformDatabaseUser (Some dbUser) = Some
    \<lparr>id_field = db_id dbUser,
     email = db_email dbUser,
     is_anonymous = db_is_anonymous dbUser,
     profile =
       (case db_profile dbUser of
          Some p \<Rightarrow>
            \<lparr>firstName = pf_first_name p,
             lastName = pf_last_name p,
             age = pf_age p,
             gender = pf_gender p,
             healthGoals = obj_or (pf_health_goals p) [],
             conditions = obj_or (pf_conditions p) [],
             medications = obj_or (pf_medications p) [],
             allergies = obj_or (pf_allergies p) [],
             genetics = json_or_null (pf_genetics p)\<rparr>
        | None \<Rightarrow>
            \<lparr>firstName = None,
             lastName = None,
             age = None,
             gender = None,
             healthGoals = [],
             conditions = [],
             medications = [],
             allergies = [],
             genetics = None\<rparr>),
     preferences =
       (case db_preferences dbUser of
          Some q \<Rightarrow>
            \<lparr>aiResponseStyle = str_or (pref_ai_response_style q) ''concise'',
             budgetRange = str_or (pref_budget_range q) ''mid'',
             primaryFocus = str_or (pref_primary_focus q) ''safety'',
             notifications = obj_or (pref_notifications q) default_notifications\<rparr>
        | None \<Rightarrow>
            \<lparr>aiResponseStyle = ''concise'',
             budgetRange = ''mid'',
             primaryFocus = ''safety'',
             notifications = default_notifications\<rparr>),
     points =
       (case db_points dbUser of
          Some r \<Rightarrow> Some
            \<lparr>total_field = num_or (pts_total_points r) (Num 0),
             level = num_or (pts_level r) (Num 1),
             levelTitle = getLevelTitle (num_or (pts_level r) (Num 1)),
             nextLevelAt =
               js_times
                 (js_plus (js_floor (js_divide (num_or (pts_total_points r) (Num 0)) 100)) 1)
                 100\<rparr>
        | None \<Rightarrow> None),
     streaks =
       (case db_streaks dbUser of
          Some s \<Rightarrow> Some
            \<lparr>current = num_or (st_current_streak s) (Num 0),
             longest = num_or (st_longest_streak s) (Num 0),
             lastActivity = st_last_activity_date s\<rparr>
        | None \<Rightarrow> None),
     createdAt = db_created_at dbUser,
     updatedAt = db_updated_at dbUser\<rparr>"

subsection \<open>The backend and the local store\<close>

text \<open>
  An error object of the backend, or anything a rejected promise carries: the code reads
  its \<open>message\<close> and \<open>code\<close> only.
\<close>

record BackendError =
  be_message :: "string option"
  be_code :: "string option"

record AuthError =
  message :: string
  code :: string
  originalError :: BackendError

record SupabaseUser =
  su_id :: string
  su_email :: "string option"

text \<open>The code tests \<open>session?.user\<close>, so the principal of a session is optional here.\<close>

record Session =
  access_token :: string
  session_user :: "SupabaseUser option"

text \<open>An awaited call either rejects (the \<open>await\<close> throws) or resolves to a value.\<close>

datatype 'a reply = Rejects BackendError | Resolves 'a

text \<open>\<open>{ data: { user, session }, error }\<close> of the three sign-in calls.\<close>

record AuthResponse =
  data_user :: "SupabaseUser option"
  data_session :: "Session option"
  auth_error :: "BackendError option"

text \<open>\<open>{ data, error }\<close> of the remote procedure and of the row query.\<close>

record RpcResponse =
  rpc_data :: "string option"
  rpc_error :: "BackendError option"

record SelectResponse =
  select_data :: "DatabaseUserWithRelations option"
  select_error :: "BackendError option"

text \<open>
  The backend, as far as one operation sees it: the reply to each call the operation can
  make. The remote procedure and the query are functions of their arguments.
\<close>

record Backend =
  auth_getSession :: "Session option reply"
  auth_signInAnonymously :: "AuthResponse reply"
  auth_signInWithPassword :: "string \<Rightarrow> string \<Rightarrow> AuthResponse reply"
  auth_signUp :: "string \<Rightarrow> string \<Rightarrow> AuthResponse reply"
  auth_signOut :: "BackendError option reply"
  rpc_create_user_with_profile :: "string \<Rightarrow> string option \<Rightarrow> bool \<Rightarrow> RpcResponse reply"
  select_user :: "string \<Rightarrow> SelectResponse reply"

subsection \<open>Effects and the provider's state\<close>

text \<open>
  What an operation does, in the order it does it: the four state setters, the two calls
  to the local store, and the calls to the backend with their arguments.
\<close>

datatype effect =
  SetUser "User option"
  | SetSession "Session option"
  | SetLoading bool
  | SetError "AuthError option"
  | StorageSetItem string string
  | StorageRemoveItem string
  | CallGetSession
  | CallSignInAnonymously
  | CallSignInWithPassword string string
  | CallSignUp string string
  | CallSignOut
  | CallRpc string "string option" bool
  | CallSelectUser string

text \<open>How the promise of an operation settles.\<close>

datatype outcome = Returned | Threw BackendError

record AuthState =
  user :: "User option"
  session :: "Session option"
  loading :: bool
  error :: "AuthError option"
  storage :: "string \<rightharpoonup> string"

text \<open>
  Modelled from the spec: the local key-value store adapter (\<open>utils/safeStorage\<close> is not
  among the sources) sets and removes string values keyed by name. The store is a map
  from names to values, and the two calls do not fail.
\<close>

definition safeStorage_setItem :: "string \<Rightarrow> string \<Rightarrow> (string \<rightharpoonup> string) \<Rightarrow> (string \<rightharpoonup> string)" where
  [simp]: "safeStorage_setItem k v kv = kv(k \<mapsto> v)"

definition safeStorage_removeItem :: "string \<Rightarrow> (string \<rightharpoonup> string) \<Rightarrow> (string \<rightharpoonup> string)" where
  [simp]: "safeStorage_removeItem k kv = kv(k := None)"

text \<open>The effect of one step on the state; a call to the backend changes nothing here.\<close>

fun apply_effect :: "effect \<Rightarrow> AuthState \<Rightarrow> AuthState" where
  "apply_effect (SetUser u) st = st\<lparr>user := u\<rparr>"
| "apply_effect (SetSession s) st = st\<lparr>session := s\<rparr>"
| "apply_effect (SetLoading b) st = st\<lparr>loading := b\<rparr>"
| "apply_effect (SetError e) st = st\<lparr>error := e\<rparr>"
| "apply_effect (StorageSetItem k v) st = st\<lparr>storage := safeStorage_setItem k v (storage st)\<rparr>"
| "apply_effect (StorageRemoveItem k) st = st\<lparr>storage := safeStorage_removeItem k (storage st)\<rparr>"
| "apply_effect CallGetSession st = st"
| "apply_effect CallSignInAnonymously st = st"
| "apply_effect (CallSignInWithPassword e p) st = st"
| "apply_effect (CallSignUp e p) st = st"
| "apply_effect CallSignOut st = st"
| "apply_effect (CallRpc a e b) st = st"
| "apply_effect (CallSelectUser a) st = st"

definition run :: "effect list \<Rightarrow> AuthState \<Rightarrow> AuthState" where
  "run es st = fold apply_effect es st"

text \<open>The initial values of the four \<open>useState\<close> cells.\<close>

definition initial_state :: "(string \<rightharpoonup> string) \<Rightarrow> AuthState" where
  "initial_state kv = \<lparr>user = None, session = None, loading = True, error = None, storage = kv\<rparr>"

fun is_SetSession :: "effect \<Rightarrow> bool" where
  "is_SetSession (SetSession s) = True"
| "is_SetSession e = False"

fun is_SetLoading :: "effect \<Rightarrow> bool" where
  "is_SetLoading (SetLoading b) = True"
| "is_SetLoading e = False"

fun is_SetError :: "effect \<Rightarrow> bool" where
  "is_SetError (SetError x) = True"
| "is_SetError e = False"

subsection \<open>Materialization: \<open>fetchUserWithRelations\<close> and \<open>createOrUpdateUser\<close>\<close>

definition fetchUserWithRelations ::
  "Backend \<Rightarrow> string \<Rightarrow> effect list \<times> DatabaseUserWithRelations option reply" where
  "fetchUserWithRelations be authId =
    ([CallSelectUser authId],
     (case select_user be authId of
        Rejects e \<Rightarrow> Rejects e
      | Resolves r \<Rightarrow>
          (case select_error r of
             Some e \<Rightarrow> Resolves None
           | None \<Rightarrow> Resolves (select_data r))))"

text \<open>The \<open>try\<close> block catches the rejected calls and both \<open>throw\<close>s: every failure is
  the result \<open>null\<close>.\<close>

definition createOrUpdateUser :: "Backend \<Rightarrow> SupabaseUser \<Rightarrow> effect list \<times> User option" where
  "createOrUpdateUser be authUser =
    (let p_email = str_or_null (su_email authUser);
         p_is_anonymous = (\<not> str_truthy (su_email authUser));
         call = CallRpc (su_id authUser) p_email p_is_anonymous
     in case rpc_create_user_with_profile be (su_id authUser) p_email p_is_anonymous of
          Rejects e \<Rightarrow> ([call], None)
        | Resolves r \<Rightarrow>
            (case rpc_error r of
               Some rpcError \<Rightarrow> ([call], None)
             | None \<Rightarrow>
                 (case fetchUserWithRelations be (su_id authUser) of
                    (es, Rejects e) \<Rightarrow> (call # es, None)
                  | (es, Resolves None) \<Rightarrow> (call # es, None)
                  | (es, Resolves (Some dbUser)) \<Rightarrow>
                      (call # es, transformDatabaseUser (Some dbUser)))))"

text \<open>\<open>setUser(profile); if (profile) await safeStorage.setItem(...)\<close>, the common tail
  of the sign-in operations, the startup and the subscription handler.\<close>

definition store_profile :: "User option \<Rightarrow> effect list" where
  "store_profile prof =
    SetUser prof #
      (case prof of None \<Rightarrow> [] | Some p \<Rightarrow> [StorageSetItem ''current_user_id'' (id_field p)])"

subsection \<open>Startup and the session-change subscription\<close>

definition initializeAuth :: "Backend \<Rightarrow> effect list" where
  "initializeAuth be =
    CallGetSession #
    (case auth_getSession be of
       Rejects e \<Rightarrow> []
     | Resolves None \<Rightarrow> []
     | Resolves (Some currentSession) \<Rightarrow>
         (case session_user currentSession of
            None \<Rightarrow> []
          | Some u \<Rightarrow>
              (case createOrUpdateUser be u of
                 (es, prof) \<Rightarrow> SetSession (Some currentSession) # es @ store_profile prof)))
    @ [SetLoading False]"

definition session_principal :: "Session option \<Rightarrow> SupabaseUser option" where
  "session_principal s = (case s of None \<Rightarrow> None | Some x \<Rightarrow> session_user x)"

definition onAuthStateChange :: "Backend \<Rightarrow> Session option \<Rightarrow> effect list" where
  "onAuthStateChange be s =
    (case session_principal s of
       Some u \<Rightarrow>
         (case createOrUpdateUser be u of
            (es, prof) \<Rightarrow> SetSession s # es @ store_profile prof)
     | None \<Rightarrow> [SetSession None, SetUser None, StorageRemoveItem ''current_user_id''])"

subsection \<open>The six operations\<close>

text \<open>The \<open>catch\<close> block of the sign-in family and of \<open>signOut\<close>: the structured error,
  with the defaults of the operation.\<close>

definition catch_error :: "BackendError \<Rightarrow> string \<Rightarrow> string \<Rightarrow> effect" where
  "catch_error e msg cd =
    SetError (Some \<lparr>message = str_or (be_message e) msg, code = str_or (be_code e) cd,
                    originalError = e\<rparr>)"

definition signInAnonymously :: "Backend \<Rightarrow> effect list \<times> outcome" where
  "signInAnonymously be =
    (let entry = [SetLoading True, SetError None, CallSignInAnonymously];
         failed = (\<lambda>e. (entry @
           [catch_error e ''Failed to sign in anonymously'' ''auth/anonymous-failed'',
            SetLoading False], Threw e))
     in case auth_signInAnonymously be of
          Rejects e \<Rightarrow> failed e
        | Resolves r \<Rightarrow>
            (case auth_error r of
               Some e \<Rightarrow> failed e
             | None \<Rightarrow>
                 (case data_user r of
                    None \<Rightarrow> (entry @ [SetLoading False], Returned)
                  | Some u \<Rightarrow>
                      (case createOrUpdateUser be u of
                         (es, prof) \<Rightarrow>
                           (entry @ es @ store_profile prof @ [SetLoading False], Returned)))))"

definition signInWithEmail :: "Backend \<Rightarrow> string \<Rightarrow> string \<Rightarrow> effect list \<times> outcome" where
  "signInWithEmail be em password =
    (let entry = [SetLoading True, SetError None, CallSignInWithPassword em password];
         failed = (\<lambda>e. (entry @
           [catch_error e ''Failed to sign in'' ''auth/sign-in-failed'',
            SetLoading False], Threw e))
     in case auth_signInWithPassword be em password of
          Rejects e \<Rightarrow> failed e
        | Resolves r \<Rightarrow>
            (case auth_error r of
               Some e \<Rightarrow> failed e
             | None \<Rightarrow>
                 (case data_user r of
                    None \<Rightarrow> (entry @ [SetLoading False], Returned)
                  | Some u \<Rightarrow>
                      (case createOrUpdateUser be u of
                         (es, prof) \<Rightarrow>
                           (entry @ es @ store_profile prof @ [SetLoading False], Returned)))))"

definition signUpWithEmail :: "Backend \<Rightarrow> string \<Rightarrow> string \<Rightarrow> effect list \<times> outcome" where
  "signUpWithEmail be em password =
    (let entry = [SetLoading True, SetError None, CallSignUp em password];
         failed = (\<lambda>e. (entry @
           [catch_error e ''Failed to sign up'' ''auth/sign-up-failed'',
            SetLoading False], Threw e))
     in case auth_signUp be em password of
          Rejects e \<Rightarrow> failed e
        | Resolves r \<Rightarrow>
            (case auth_error r of
               Some e \<Rightarrow> failed e
             | None \<Rightarrow>
                 (case data_user r of
                    None \<Rightarrow> (entry @ [SetLoading False], Returned)
                  | Some u \<Rightarrow>
                      (case createOrUpdateUser be u of
                         (es, prof) \<Rightarrow>
                           (entry @ es @ store_profile prof @ [SetLoading False], Returned)))))"

definition signOut :: "Backend \<Rightarrow> effect list \<times> outcome" where
  "signOut be =
    (let entry = [SetLoading True, SetError None, CallSignOut];
         failed = (\<lambda>e. (entry @
           [catch_error e ''Failed to sign out'' ''auth/sign-out-failed'',
            SetLoading False], Threw e))
     in case auth_signOut be of
          Rejects e \<Rightarrow> failed e
        | Resolves (Some e) \<Rightarrow> failed e
        | Resolves None \<Rightarrow>
            (entry @ [SetUser None, SetSession None, StorageRemoveItem ''current_user_id'',
                      SetLoading False], Returned))"

text \<open>\<open>refreshUser\<close> reads the session of the state it runs in.\<close>

definition refreshUser :: "Backend \<Rightarrow> AuthState \<Rightarrow> effect list \<times> outcome" where
  "refreshUser be st =
    (case session_principal (session st) of
       None \<Rightarrow> ([], Returned)
     | Some u \<Rightarrow>
         (case fetchUserWithRelations be (su_id u) of
            (es, Rejects e) \<Rightarrow> (es, Returned)
          | (es, Resolves None) \<Rightarrow> (es, Returned)
          | (es, Resolves (Some dbUser)) \<Rightarrow>
              (es @ [SetUser (transformDatabaseUser (Some dbUser))], Returned)))"

definition clearError :: "effect list \<times> outcome" where
  "clearError = ([SetError None], Returned)"

subsection \<open>The users relation behind the remote procedure\<close>

text \<open>
  Modelled from the spec: the remote procedure \<open>create_user_with_profile\<close> and the
  relation it writes are not among the sources. The procedure is given the principal's
  backend id, the email or none, and the anonymous flag; it creates the user record of
  that principal, or updates the one there is, so that there is never a second one. The
  relation is a map from backend ids to records, and \<open>fresh\<close> is the record, with its
  related rows, that the database makes for a new principal.
\<close>

type_synonym users_relation = "string \<rightharpoonup> DatabaseUserWithRelations"

definition create_user_with_profile ::
  "DatabaseUserWithRelations \<Rightarrow> users_relation \<Rightarrow> string \<Rightarrow> string option \<Rightarrow> bool
    \<Rightarrow> users_relation" where
  "create_user_with_profile fresh users p_auth_id p_email p_is_anonymous =
    users(p_auth_id \<mapsto>
      (case users p_auth_id of None \<Rightarrow> fresh | Some row \<Rightarrow> row)
        \<lparr>db_auth_id := p_auth_id, db_email := p_email, db_is_anonymous := p_is_anonymous\<rparr>)"

text \<open>
  Modelled from the spec: the query on the relation, filtered by the backend id, returns
  the single row or an error.
\<close>

definition row_not_found :: BackendError where
  "row_not_found = \<lparr>be_message = Some ''no rows returned'', be_code = None\<rparr>"

definition select_by_auth_id :: "users_relation \<Rightarrow> string \<Rightarrow> SelectResponse" where
  "select_by_auth_id users p_auth_id =
    (case users p_auth_id of
       None \<Rightarrow> \<lparr>select_data = None, select_error = Some row_not_found\<rparr>
     | Some row \<Rightarrow> \<lparr>select_data = Some row, select_error = None\<rparr>)"

subsection \<open>Sample data\<close>

text \<open>Concrete principals, rows and backends, on which the theorems below are run.\<close>

definition anonymous_principal :: SupabaseUser where
  "anonymous_principal = \<lparr>su_id = ''auth-1'', su_email = None\<rparr>"

definition blank_email_principal :: SupabaseUser where
  "blank_email_principal = \<lparr>su_id = ''auth-1'', su_email = Some ''''\<rparr>"

definition sample_session :: Session where
  "sample_session = \<lparr>access_token = ''token-1'', session_user = Some anonymous_principal\<rparr>"

definition bare_record :: DatabaseUserWithRelations where
  "bare_record =
    \<lparr>db_id = ''user-1'', db_auth_id = ''auth-1'', db_email = None, db_is_anonymous = True,
     db_display_name = None, db_created_at = ''2024-01-01'', db_updated_at = ''2024-01-02'',
     db_profile = None, db_preferences = None, db_points = None, db_streaks = None,
     db_roles = None\<rparr>"

definition permission_denied :: BackendError where
  "permission_denied = \<lparr>be_message = Some ''permission denied'', be_code = Some ''42501''\<rparr>"

definition nameless_error :: BackendError where
  "nameless_error = \<lparr>be_message = None, be_code = None\<rparr>"

text \<open>A backend on which every call succeeds.\<close>

definition backend_ok :: Backend where
  "backend_ok =
    \<lparr>auth_getSession = Resolves (Some sample_session),
     auth_signInAnonymously =
       Resolves \<lparr>data_user = Some anonymous_principal, data_session = Some sample_session,
                 auth_error = None\<rparr>,
     auth_signInWithPassword = (\<lambda>em pw.
       Resolves \<lparr>data_user = Some \<lparr>su_id = ''auth-1'', su_email = Some em\<rparr>,
                 data_session = None, auth_error = None\<rparr>),
     auth_signUp = (\<lambda>em pw.
       Resolves \<lparr>data_user = Some \<lparr>su_id = ''auth-1'', su_email = Some em\<rparr>,
                 data_session = None, auth_error = None\<rparr>),
     auth_signOut = Resolves None,
     rpc_create_user_with_profile = (\<lambda>a em anon.
       Resolves \<lparr>rpc_data = Some ''user-1'', rpc_error = None\<rparr>),
     select_user = (\<lambda>a. Resolves \<lparr>select_data = Some bare_record, select_error = None\<rparr>)\<rparr>"

text \<open>The same backend with a failing remote procedure, with a query that finds no row,
  and with a failing sign-out.\<close>

definition backend_rpc_fails :: Backend where
  "backend_rpc_fails =
    backend_ok\<lparr>rpc_create_user_with_profile := (\<lambda>a em anon.
      Resolves \<lparr>rpc_data = None, rpc_error = Some permission_denied\<rparr>)\<rparr>"

definition backend_no_row :: Backend where
  "backend_no_row =
    backend_ok\<lparr>select_user := (\<lambda>a.
      Resolves \<lparr>select_data = None, select_error = Some nameless_error\<rparr>)\<rparr>"

definition backend_signout_fails :: Backend where
  "backend_signout_fails = backend_ok\<lparr>auth_signOut := Resolves (Some nameless_error)\<rparr>"

text \<open>A state in which a user is signed in and the id is persisted.\<close>

definition signed_in_state :: AuthState where
  "signed_in_state =
    \<lparr>user = transformDatabaseUser (Some bare_record), session = Some sample_session,
     loading = False, error = None, storage = [''current_user_id'' \<mapsto> ''user-1'']\<rparr>"

section \<open>Properties\<close>

subsection \<open>Running effects\<close>

lemma run_Nil [simp]: "run [] st = st"
  by (simp add: run_def)

lemma run_Cons [simp]: "run (e # es) st = run es (apply_effect e st)"
  by (simp add: run_def)

lemma run_append [simp]: "run (es @ fs) st = run fs (run es st)"
  by (simp add: run_def)

text \<open>A sequence without a \<open>setSession\<close> leaves the session as it was.\<close>

lemma session_run_frame:
  "filter is_SetSession es = [] \<Longrightarrow> session (run es st) = session st"
proof (induction es arbitrary: st)
  case Nil
  then show ?case by simp
next
  case (Cons e es)
  from Cons.prems have e: "\<not> is_SetSession e" and es: "filter is_SetSession es = []"
    by (auto split: if_splits)
  from e have "session (apply_effect e st) = session st" by (cases e) simp_all
  with Cons.IH [OF es] show ?case by simp
qed

subsection \<open>Rounding to a double\<close>

lemma round_half_even_of_int [simp]: "round_half_even (of_int n) = n"
  by (simp add: round_half_even_def)

lemma round_half_even_error: "\<bar>of_int (round_half_even z) - z\<bar> \<le> 1 / 2"
proof -
  have "of_int \<lfloor>z\<rfloor> \<le> z" "z < of_int \<lfloor>z\<rfloor> + 1" by linarith+
  then show ?thesis
    by (auto simp: round_half_even_def Let_def abs_le_iff)
qed

lemma bitlen_powi:
  assumes "0 < a"
  shows "(2::rat) powi (bitlen a - 1) \<le> of_int a" and "of_int a < (2::rat) powi (bitlen a)"
proof -
  from bitlen_bounds [OF assms]
  have lo: "2 ^ nat (bitlen a - 1) \<le> a" and hi: "a < 2 ^ nat (bitlen a)" by simp_all
  have pos: "1 \<le> bitlen a" using assms bitlen_eq_zero_iff [of a] bitlen_nonneg [of a]
    by (cases "bitlen a = 0") auto
  have "(2::rat) powi (bitlen a - 1) = 2 ^ nat (bitlen a - 1)"
    using pos by (simp add: power_int_nonneg_exp)
  also have "\<dots> = of_int (2 ^ nat (bitlen a - 1))" by simp
  also have "\<dots> \<le> of_int a" using lo by (simp only: of_int_le_iff)
  finally show "(2::rat) powi (bitlen a - 1) \<le> of_int a" .
  have "(of_int a :: rat) < of_int (2 ^ nat (bitlen a))" using hi by (simp only: of_int_less_iff)
  also have "\<dots> = 2 ^ nat (bitlen a)" by simp
  also have "\<dots> = 2 powi (bitlen a)" using pos by (simp add: power_int_nonneg_exp)
  finally show "of_int a < (2::rat) powi (bitlen a)" .
qed

lemma floor_log2_bounds:
  assumes "0 < x"
  shows "2 powi (floor_log2 x) \<le> x \<and> x < 2 powi (floor_log2 x + 1)"
proof -
  obtain a b where q: "quotient_of x = (a, b)" by (cases "quotient_of x")
  then have b: "0 < b" by (rule quotient_of_denom_pos)
  from q have x: "x = of_int a / of_int b" by (rule quotient_of_div)
  with assms b have a: "0 < a" by (simp add: zero_less_divide_iff)
  let ?d = "bitlen a - bitlen b"
  note A = bitlen_powi [OF a] and B = bitlen_powi [OF b]
  have bpos: "(0::rat) < of_int b" using b by simp
  have low: "(2::rat) powi (?d - 1) \<le> x"
  proof -
    have "(2::rat) powi (?d - 1) * of_int b \<le> 2 powi (?d - 1) * 2 powi (bitlen b)"
      using B(2) by (intro mult_left_mono) simp_all
    also have "\<dots> = 2 powi (bitlen a - 1)"
      by (simp add: power_int_add [symmetric])
    also have "\<dots> \<le> of_int a" by (rule A(1))
    finally show ?thesis using bpos by (simp add: x pos_le_divide_eq)
  qed
  have high: "x < (2::rat) powi (?d + 1)"
  proof -
    have "of_int a < (2::rat) powi (bitlen a)" by (rule A(2))
    also have "\<dots> = 2 powi (?d + 1) * 2 powi (bitlen b - 1)"
      by (simp add: power_int_add [symmetric])
    also have "\<dots> \<le> 2 powi (?d + 1) * of_int b"
      using B(1) by (intro mult_left_mono) simp_all
    finally show ?thesis using bpos by (simp add: x pos_divide_less_eq)
  qed
  show ?thesis
    using low high by (simp add: floor_log2_def q Let_def)
qed

lemma two_powi_less_D:
  assumes "(2::rat) powi m < 2 powi n"
  shows "m < n"
proof (rule ccontr)
  assume "\<not> m < n"
  then have "(2::rat) powi n \<le> 2 powi m" by (intro power_int_increasing) simp_all
  with assms show False by simp
qed

lemma round_double_exact:
  assumes x: "x = of_int m * 2 ^ s" and m: "\<bar>m\<bar> < 2 ^ 53" and fin: "\<bar>x\<bar> < 2 ^ 1024"
  shows "round_double x = Num x"
proof (cases "x = 0")
  case True
  then show ?thesis by (simp add: round_double_def)
next
  case False
  define e where "e = max (floor_log2 \<bar>x\<bar>) (- 1022)"
  define n where "n = int s - (e - 52)"
  have pos: "0 < \<bar>x\<bar>" using False by simp
  have "(2::rat) powi (floor_log2 \<bar>x\<bar>) \<le> \<bar>x\<bar>"
    using floor_log2_bounds [OF pos] by simp
  also have "\<bar>x\<bar> = of_int \<bar>m\<bar> * 2 ^ s" by (simp add: x abs_mult)
  also have "\<dots> < of_int (2 ^ 53) * 2 ^ s"
    using m by (intro mult_strict_right_mono) (simp_all only: of_int_less_iff zero_less_power zero_less_numeral)
  also have "\<dots> = (2::rat) powi (53 + int s)"
    by (simp add: power_int_add)
  finally have "floor_log2 \<bar>x\<bar> < 53 + int s"
    by (rule two_powi_less_D)
  then have n: "0 \<le> n" by (simp add: n_def e_def)
  have split: "(2::rat) powi (int s) = 2 powi n * 2 powi (e - 52)"
    unfolding n_def by (simp add: power_int_add [symmetric])
  have "(2::rat) powi n = of_int (2 ^ nat n)"
    using n by (simp add: power_int_nonneg_exp)
  with split have x': "x = of_int (m * 2 ^ nat n) * 2 powi (e - 52)"
    by (simp add: x)
  have "x / 2 powi (e - 52) = of_int (m * 2 ^ nat n)"
    by (subst x') simp
  then have "round_half_even (x / 2 powi (e - 52)) = m * 2 ^ nat n"
    by (simp only: round_half_even_of_int)
  with x' have "of_int (round_half_even (x / 2 powi (e - 52))) * 2 powi (e - 52) = x"
    by simp
  with False fin show ?thesis
    by (simp add: round_double_def Let_def e_def [symmetric])
qed

lemma round_double_of_int:
  assumes "\<bar>n\<bar> < 2 ^ 53"
  shows "round_double (of_int n) = Num (of_int n)"
proof -
  have "\<bar>of_int n :: rat\<bar> = of_int \<bar>n\<bar>" by simp
  also have "\<dots> < of_int (2 ^ 53)" using assms by (simp only: of_int_less_iff)
  also have "\<dots> < 2 ^ 1024" by simp
  finally have "\<bar>of_int n :: rat\<bar> < 2 ^ 1024" .
  then show ?thesis
    using round_double_exact [of "of_int n" n 0] assms by simp
qed

lemma round_double_near:
  assumes nz: "x \<noteq> 0" and small: "\<bar>x\<bar> < 2 ^ 47"
  shows "\<exists>y. round_double x = Num y \<and> \<bar>y - x\<bar> \<le> 1 / 128"
proof -
  define e where "e = max (floor_log2 \<bar>x\<bar>) (- 1022)"
  define q :: rat where "q = 2 powi (e - 52)"
  define y where "y = of_int (round_half_even (x / q)) * q"
  have pos: "0 < \<bar>x\<bar>" using nz by simp
  have "(2::rat) powi (floor_log2 \<bar>x\<bar>) \<le> \<bar>x\<bar>"
    using floor_log2_bounds [OF pos] by simp
  also have "\<bar>x\<bar> < 2 powi 47" using small by simp
  finally have "floor_log2 \<bar>x\<bar> < 47"
    by (rule two_powi_less_D)
  then have e: "e - 52 \<le> - 6" by (simp add: e_def)
  have qpos: "0 < q" by (simp add: q_def)
  have "q \<le> 2 powi (- 6)"
    unfolding q_def using e by (intro power_int_increasing) simp_all
  then have q: "q \<le> 1 / 64" by (simp add: power_int_minus_divide)
  have "y - x = (of_int (round_half_even (x / q)) - x / q) * q"
    using qpos by (simp add: y_def left_diff_distrib)
  then have "\<bar>y - x\<bar> = \<bar>of_int (round_half_even (x / q)) - x / q\<bar> * q"
    using qpos by (simp add: abs_mult)
  also have "\<dots> \<le> 1 / 2 * q"
    using qpos round_half_even_error [of "x / q"] by (intro mult_right_mono) simp_all
  also have "\<dots> \<le> 1 / 128" using q by simp
  finally have near: "\<bar>y - x\<bar> \<le> 1 / 128" .
  have "\<bar>y\<bar> \<le> \<bar>x\<bar> + 1 / 128" using near by linarith
  also have "\<dots> < 2 ^ 47 + 1" using small by simp
  also have "\<dots> < 2 ^ 1024" by simp
  finally have "\<not> 2 ^ 1024 \<le> \<bar>y\<bar>" by simp
  then have "round_double x = Num y"
    using nz by (simp add: round_double_def Let_def e_def [symmetric] q_def [symmetric] y_def)
  with near show ?thesis by blast
qed

lemma round_double_large:
  assumes "10 \<le> x"
  shows "round_double x = PosInf \<or> (\<exists>y. round_double x = Num y \<and> 9 \<le> y)"
proof -
  define e where "e = max (floor_log2 \<bar>x\<bar>) (- 1022)"
  define q :: rat where "q = 2 powi (e - 52)"
  define y where "y = of_int (round_half_even (x / q)) * q"
  have pos: "0 < x" "0 < \<bar>x\<bar>" "\<bar>x\<bar> = x" using assms by simp_all
  have qpos: "0 < q" by (simp add: q_def)
  have low: "(2::rat) powi (floor_log2 \<bar>x\<bar>) \<le> x"
    using floor_log2_bounds [OF pos(2)] pos(3) by simp
  have q: "q \<le> x / 8"
  proof (cases "floor_log2 \<bar>x\<bar> \<le> - 1022")
    case True
    then have "q = 2 powi (- 1074)" by (simp add: q_def e_def)
    also have "\<dots> \<le> 2 powi 0" by (intro power_int_increasing) simp_all
    finally show ?thesis using assms by simp
  next
    case False
    then have "q = 2 powi (floor_log2 \<bar>x\<bar> - 52)" by (simp add: q_def e_def max_def)
    also have "\<dots> = 2 powi (floor_log2 \<bar>x\<bar>) / 2 powi 52"
      by (rule power_int_diff) simp
    also have "\<dots> \<le> x / 2 powi 52"
      using low by (intro divide_right_mono) simp_all
    also have "\<dots> \<le> x / 8"
      using pos(1) by (intro divide_left_mono) simp_all
    finally show ?thesis by simp
  qed
  have "x - y = (x / q - of_int (round_half_even (x / q))) * q"
    using qpos by (simp add: y_def left_diff_distrib)
  also have "\<dots> \<le> \<bar>of_int (round_half_even (x / q)) - x / q\<bar> * q"
    using qpos by (intro mult_right_mono) simp_all
  also have "\<dots> \<le> 1 / 2 * q"
    using qpos round_half_even_error [of "x / q"] by (intro mult_right_mono) simp_all
  also have "\<dots> \<le> 1 / 2 * (x / 8)" using q by simp
  finally have "9 \<le> y" using assms by simp
  moreover have "round_double x = (if 2 ^ 1024 \<le> \<bar>y\<bar> then PosInf else Num y)"
    using pos(1) by (simp add: round_double_def Let_def e_def q_def y_def)
  ultimately show ?thesis by simp
qed

text \<open>Evaluating a rounding from its exponent.\<close>

lemma floor_log2_eqI:
  assumes "2 powi e \<le> x" and "x < 2 powi (e + 1)"
  shows "floor_log2 x = e"
proof -
  have "(0::rat) < 2 powi e" by simp
  from this assms(1) have pos: "0 < x" by (rule less_le_trans)
  note b = floor_log2_bounds [OF pos]
  have "(2::rat) powi (floor_log2 x) < 2 powi (e + 1)" using b assms(2) by simp
  then have "floor_log2 x < e + 1" by (rule two_powi_less_D)
  moreover have "(2::rat) powi e < 2 powi (floor_log2 x + 1)" using b assms(1) by simp
  then have "e < floor_log2 x + 1" by (rule two_powi_less_D)
  ultimately show ?thesis by simp
qed

lemma round_double_eqI:
  assumes "2 powi e \<le> \<bar>x\<bar>" and "\<bar>x\<bar> < 2 powi (e + 1)" and "- 1022 \<le> e"
    and "round_half_even (x / 2 powi (e - 52)) = m"
    and "\<bar>of_int m * 2 powi (e - 52) :: rat\<bar> < 2 ^ 1024"
  shows "round_double x = Num (of_int m * 2 powi (e - 52))"
proof -
  have "(0::rat) < 2 powi e" by simp
  from this assms(1) have "0 < \<bar>x\<bar>" by (rule less_le_trans)
  then have nz: "x \<noteq> 0" by simp
  have e: "floor_log2 \<bar>x\<bar> = e" using assms(1,2) by (rule floor_log2_eqI)
  show ?thesis
    using nz assms(3,4,5) by (simp add: round_double_def Let_def e max_def)
qed

subsection \<open>The threshold and the level titles\<close>

text \<open>Below \<open>2\<^sup>5\<^sup>3\<close> the division by 100 does not round across an integer, and the
  other steps are exact.\<close>

lemma div_100_floor:
  assumes "\<bar>P\<bar> < 2 ^ 53"
  shows "js_floor (js_divide (Num (of_int P)) 100) = Num (of_int (P div 100))"
proof -
  define x :: rat where "x = of_int P / 100"
  define k where "k = P div 100"
  define r where "r = P mod 100"
  have P: "P = 100 * k + r" and r: "0 \<le> r" "r < 100"
    by (simp_all add: k_def r_def)
  have xk: "x = of_int k + of_int r / 100"
    by (simp add: x_def P)
  have "k \<le> 2 ^ 53 div 100" "(- (2 ^ 53)) div 100 \<le> k"
    unfolding k_def using assms by (intro zdiv_mono1; simp)+
  then have kb: "\<bar>k\<bar> < 2 ^ 53" by simp
  show ?thesis
  proof (cases "r = 0")
    case True
    then have "x = of_int k" by (simp add: xk)
    then have "round_double x = Num (of_int k)"
      using round_double_of_int [OF kb] by simp
    then show ?thesis by (simp add: x_def k_def)
  next
    case False
    with r have r1: "1 \<le> r" "r \<le> 99" by simp_all
    then have frac: "1 / 100 \<le> (of_int r :: rat) / 100" "(of_int r :: rat) / 100 \<le> 99 / 100"
      by simp_all
    have nz: "x \<noteq> 0"
    proof
      assume "x = 0"
      then have "P = 0" by (simp add: x_def)
      then show False using False by (simp add: r_def)
    qed
    have "\<bar>x\<bar> = of_int \<bar>P\<bar> / 100" by (simp add: x_def)
    also have "\<dots> < of_int (2 ^ 53) / 100"
      using assms by (intro divide_strict_right_mono) (simp_all only: of_int_less_iff zero_less_numeral)
    also have "\<dots> < 2 ^ 47" by simp
    finally have small: "\<bar>x\<bar> < 2 ^ 47" .
    from round_double_near [OF nz small] obtain y
      where y: "round_double x = Num y" and near: "\<bar>y - x\<bar> \<le> 1 / 128" by blast
    have "x - 1 / 128 \<le> y" "y \<le> x + 1 / 128"
      using near by linarith+
    moreover have "of_int k + 1 / 100 \<le> x" "x \<le> of_int k + 99 / 100"
      using frac xk by linarith+
    ultimately have "of_int k < y" "y < of_int k + 1"
      by linarith+
    then have "\<lfloor>y\<rfloor> = k" by (simp add: floor_unique)
    with y show ?thesis by (simp add: x_def k_def)
  qed
qed

lemma next_level_safe:
  assumes "\<bar>P\<bar> < 2 ^ 53"
  shows "js_times (js_plus (js_floor (js_divide (Num (of_int P)) 100)) 1) 100
    = Num (of_int (100 * (P div 100 + 1)))"
proof -
  define k where "k = P div 100"
  have "k \<le> 2 ^ 53 div 100" "(- (2 ^ 53)) div 100 \<le> k"
    unfolding k_def using assms by (intro zdiv_mono1; simp)+
  then have k: "\<bar>k\<bar> \<le> 90071992547410" by simp
  then have k1: "\<bar>k + 1\<bar> < 2 ^ 53" by simp
  have plus: "round_double (of_int k + 1) = Num (of_int (k + 1))"
    using round_double_of_int [OF k1] by simp
  have m: "\<bar>25 * (k + 1)\<bar> < 2 ^ 53" using k by simp
  have "\<bar>of_int (k + 1) * 100 :: rat\<bar> = of_int \<bar>100 * (k + 1)\<bar>" by (simp add: abs_mult)
  also have "\<dots> < of_int (2 ^ 55)" using k by (simp only: of_int_less_iff) simp
  also have "\<dots> < 2 ^ 1024" by simp
  finally have fin: "\<bar>of_int (k + 1) * 100 :: rat\<bar> < 2 ^ 1024" .
  have times: "round_double (of_int (k + 1) * 100) = Num (of_int (k + 1) * 100)"
    by (rule round_double_exact [where m = "25 * (k + 1)" and s = 2, OF _ m fin]) simp
  have a: "js_floor (js_divide (Num (of_int P)) 100) = Num (of_int k)"
    unfolding k_def by (rule div_100_floor [OF assms])
  have b: "js_plus (Num (of_int k)) 1 = Num (of_int (k + 1))"
    using plus by simp
  have c: "js_times (Num (of_int (k + 1))) 100 = Num (of_int (100 * (k + 1)))"
    using times by (simp add: mult.commute)
  show ?thesis
    unfolding a b c by (simp add: k_def)
qed

lemma length_titles: "length titles = 10"
  by (simp add: titles_def)

lemma getLevelTitle_clamped:
  assumes "1 \<le> L"
  shows "getLevelTitle (Num (of_int L)) = Some (titles ! nat (min (L - 1) 9))"
proof (cases "L \<le> 10")
  case True
  with assms have "\<bar>L - 1\<bar> < 2 ^ 53" by simp
  then have "round_double (of_int (L - 1)) = Num (of_int (L - 1))"
    by (rule round_double_of_int)
  then have "js_minus (Num (of_int L)) 1 = Num (of_int (L - 1))" by simp
  moreover have "min (of_int (L - 1)) (9::rat) = of_int (L - 1)"
    using True by simp
  moreover have "min (L - 1) 9 = L - 1" using True by simp
  ultimately show ?thesis
    using assms True by (simp add: getLevelTitle_def length_titles)
next
  case False
  then have "(10::rat) \<le> of_int L - 1" by simp
  from round_double_large [OF this]
  have "js_min (js_minus (Num (of_int L)) 1) (Num 9) = Num 9"
    by (auto simp: min_def)
  moreover have "min (L - 1) 9 = 9" using False by simp
  ultimately show ?thesis
    by (simp add: getLevelTitle_def length_titles)
qed

lemma num_or_pos: "1 \<le> L \<Longrightarrow> num_or (Some (Num (of_int L))) d = Num (of_int L)"
  by (simp add: num_or_def)

lemma num_or_zero: "num_or (Some (Num (of_int P))) (Num 0) = Num (of_int P)"
  by (simp add: num_or_def)

lemma next_level_default:
  "js_times (js_plus (js_floor (js_divide (Num 0) 100)) 1) 100 = Num 100"
  using next_level_safe [of 0] by simp

lemma getLevelTitle_default: "getLevelTitle (Num 1) = Some ''Health Novice''"
  using getLevelTitle_clamped [of 1] by (simp add: titles_def)

subsection \<open>Materialization\<close>

lemma fetch_effects: "fst (fetchUserWithRelations be a) = [CallSelectUser a]"
  by (simp add: fetchUserWithRelations_def)

text \<open>Materialization only calls the backend: first the remote procedure, then,
  if that succeeded, the query.\<close>

lemma createOrUpdateUser_effects:
  "fst (createOrUpdateUser be u) =
     [CallRpc (su_id u) (str_or_null (su_email u)) (\<not> str_truthy (su_email u))]
   \<or> fst (createOrUpdateUser be u) =
     [CallRpc (su_id u) (str_or_null (su_email u)) (\<not> str_truthy (su_email u)),
      CallSelectUser (su_id u)]"
  by (simp add: createOrUpdateUser_def fetchUserWithRelations_def Let_def
      split: reply.splits option.splits)

lemma run_createOrUpdateUser [simp]: "run (fst (createOrUpdateUser be u)) st = st"
  using createOrUpdateUser_effects [of be u] by auto

lemma createOrUpdateUser_no_SetSession [simp]:
  "filter is_SetSession (fst (createOrUpdateUser be u)) = []"
  using createOrUpdateUser_effects [of be u] by auto

text \<open>Materialization returns \<open>null\<close> exactly when the remote procedure rejects or
  reports an error, or the query rejects, reports an error or has no row.\<close>

lemma createOrUpdateUser_None_iff:
  "snd (createOrUpdateUser be u) = None \<longleftrightarrow>
    (case rpc_create_user_with_profile be (su_id u) (str_or_null (su_email u))
            (\<not> str_truthy (su_email u)) of
       Rejects e \<Rightarrow> True
     | Resolves r \<Rightarrow>
         (case rpc_error r of
            Some e \<Rightarrow> True
          | None \<Rightarrow>
              (case select_user be (su_id u) of
                 Rejects e \<Rightarrow> True
               | Resolves q \<Rightarrow>
                   (case select_error q of
                      Some e \<Rightarrow> True
                    | None \<Rightarrow> select_data q = None))))"
  by (simp add: createOrUpdateUser_def fetchUserWithRelations_def Let_def
      split: reply.splits option.splits)

text \<open>A materialized user is the transformation of the row that the query returned.\<close>

lemma createOrUpdateUser_result:
  "snd (createOrUpdateUser be u) = None
   \<or> (\<exists>q. select_user be (su_id u) = Resolves q \<and> select_data q \<noteq> None
          \<and> snd (createOrUpdateUser be u) = transformDatabaseUser (select_data q))"
  by (auto simp: createOrUpdateUser_def fetchUserWithRelations_def Let_def
      split: reply.splits option.splits)

lemma store_profile_no_SetSession [simp]: "filter is_SetSession (store_profile p) = []"
  by (simp add: store_profile_def split: option.splits)

lemma run_store_profile:
  "run (store_profile p) st =
    (case p of
       None \<Rightarrow> st\<lparr>user := None\<rparr>
     | Some v \<Rightarrow>
         st\<lparr>user := Some v, storage := (storage st)(''current_user_id'' \<mapsto> id_field v)\<rparr>)"
  by (simp add: store_profile_def split: option.splits)

subsection \<open>The operations, branch by branch\<close>

lemma signInAnonymously_unfold:
  "signInAnonymously be =
    (case auth_signInAnonymously be of
       Rejects e \<Rightarrow>
         ([SetLoading True, SetError None, CallSignInAnonymously,
           catch_error e ''Failed to sign in anonymously'' ''auth/anonymous-failed'',
           SetLoading False], Threw e)
     | Resolves r \<Rightarrow>
         (case auth_error r of
            Some e \<Rightarrow>
              ([SetLoading True, SetError None, CallSignInAnonymously,
                catch_error e ''Failed to sign in anonymously'' ''auth/anonymous-failed'',
                SetLoading False], Threw e)
          | None \<Rightarrow>
              (case data_user r of
                 None \<Rightarrow>
                   ([SetLoading True, SetError None, CallSignInAnonymously,
                     SetLoading False], Returned)
               | Some u \<Rightarrow>
                   (SetLoading True # SetError None # CallSignInAnonymously #
                    fst (createOrUpdateUser be u) @
                    store_profile (snd (createOrUpdateUser be u)) @ [SetLoading False],
                    Returned))))"
  by (simp add: signInAnonymously_def Let_def case_prod_beta split: reply.splits option.splits)

lemma signInWithEmail_unfold:
  "signInWithEmail be em pw =
    (case auth_signInWithPassword be em pw of
       Rejects e \<Rightarrow>
         ([SetLoading True, SetError None, CallSignInWithPassword em pw,
           catch_error e ''Failed to sign in'' ''auth/sign-in-failed'',
           SetLoading False], Threw e)
     | Resolves r \<Rightarrow>
         (case auth_error r of
            Some e \<Rightarrow>
              ([SetLoading True, SetError None, CallSignInWithPassword em pw,
                catch_error e ''Failed to sign in'' ''auth/sign-in-failed'',
                SetLoading False], Threw e)
          | None \<Rightarrow>
              (case data_user r of
                 None \<Rightarrow>
                   ([SetLoading True, SetError None, CallSignInWithPassword em pw,
                     SetLoading False], Returned)
               | Some u \<Rightarrow>
                   (SetLoading True # SetError None # CallSignInWithPassword em pw #
                    fst (createOrUpdateUser be u) @
                    store_profile (snd (createOrUpdateUser be u)) @ [SetLoading False],
                    Returned))))"
  by (simp add: signInWithEmail_def Let_def case_prod_beta split: reply.splits option.splits)

lemma signUpWithEmail_unfold:
  "signUpWithEmail be em pw =
    (case auth_signUp be em pw of
       Rejects e \<Rightarrow>
         ([SetLoading True, SetError None, CallSignUp em pw,
           catch_error e ''Failed to sign up'' ''auth/sign-up-failed'',
           SetLoading False], Threw e)
     | Resolves r \<Rightarrow>
         (case auth_error r of
            Some e \<Rightarrow>
              ([SetLoading True, SetError None, CallSignUp em pw,
                catch_error e ''Failed to sign up'' ''auth/sign-up-failed'',
                SetLoading False], Threw e)
          | None \<Rightarrow>
              (case data_user r of
                 None \<Rightarrow>
                   ([SetLoading True, SetError None, CallSignUp em pw,
                     SetLoading False], Returned)
               | Some u \<Rightarrow>
                   (SetLoading True # SetError None # CallSignUp em pw #
                    fst (createOrUpdateUser be u) @
                    store_profile (snd (createOrUpdateUser be u)) @ [SetLoading False],
                    Returned))))"
  by (simp add: signUpWithEmail_def Let_def case_prod_beta split: reply.splits option.splits)

lemma signOut_unfold:
  "signOut be =
    (case auth_signOut be of
       Rejects e \<Rightarrow>
         ([SetLoading True, SetError None, CallSignOut,
           catch_error e ''Failed to sign out'' ''auth/sign-out-failed'',
           SetLoading False], Threw e)
     | Resolves None \<Rightarrow>
         ([SetLoading True, SetError None, CallSignOut, SetUser None, SetSession None,
           StorageRemoveItem ''current_user_id'', SetLoading False], Returned)
     | Resolves (Some e) \<Rightarrow>
         ([SetLoading True, SetError None, CallSignOut,
           catch_error e ''Failed to sign out'' ''auth/sign-out-failed'',
           SetLoading False], Threw e))"
  by (simp add: signOut_def Let_def split: reply.splits option.splits)

lemma refreshUser_unfold:
  "refreshUser be st =
    (case session_principal (session st) of
       None \<Rightarrow> ([], Returned)
     | Some u \<Rightarrow>
         (case snd (fetchUserWithRelations be (su_id u)) of
            Rejects e \<Rightarrow> ([CallSelectUser (su_id u)], Returned)
          | Resolves None \<Rightarrow> ([CallSelectUser (su_id u)], Returned)
          | Resolves (Some d) \<Rightarrow>
              ([CallSelectUser (su_id u), SetUser (transformDatabaseUser (Some d))],
               Returned)))"
  by (simp add: refreshUser_def fetchUserWithRelations_def
      split: reply.splits option.splits)

text \<open>Entry and exit of the four operations that have a \<open>finally\<close> block.\<close>

lemma signInAnonymously_loading:
  "take 2 (fst (signInAnonymously be)) = [SetLoading True, SetError None]
   \<and> last (fst (signInAnonymously be)) = SetLoading False
   \<and> loading (run (fst (signInAnonymously be)) st) = False"
  by (simp add: signInAnonymously_unfold split: reply.splits option.splits)

lemma signInWithEmail_loading:
  "take 2 (fst (signInWithEmail be em pw)) = [SetLoading True, SetError None]
   \<and> last (fst (signInWithEmail be em pw)) = SetLoading False
   \<and> loading (run (fst (signInWithEmail be em pw)) st) = False"
  by (simp add: signInWithEmail_unfold split: reply.splits option.splits)

lemma signUpWithEmail_loading:
  "take 2 (fst (signUpWithEmail be em pw)) = [SetLoading True, SetError None]
   \<and> last (fst (signUpWithEmail be em pw)) = SetLoading False
   \<and> loading (run (fst (signUpWithEmail be em pw)) st) = False"
  by (simp add: signUpWithEmail_unfold split: reply.splits option.splits)

lemma signOut_loading:
  "take 2 (fst (signOut be)) = [SetLoading True, SetError None]
   \<and> last (fst (signOut be)) = SetLoading False
   \<and> loading (run (fst (signOut be)) st) = False"
  by (simp add: signOut_unfold split: reply.splits option.splits)

lemma refreshUser_untouched:
  "filter is_SetLoading (fst (refreshUser be st)) = []
   \<and> filter is_SetError (fst (refreshUser be st)) = []
   \<and> filter is_SetSession (fst (refreshUser be st)) = []"
  by (simp add: refreshUser_unfold split: reply.splits option.splits)

lemma signInAnonymously_no_SetSession:
  "filter is_SetSession (fst (signInAnonymously be)) = []"
  by (simp add: signInAnonymously_unfold catch_error_def split: reply.splits option.splits)

lemma signInWithEmail_no_SetSession:
  "filter is_SetSession (fst (signInWithEmail be em pw)) = []"
  by (simp add: signInWithEmail_unfold catch_error_def split: reply.splits option.splits)

lemma signUpWithEmail_no_SetSession:
  "filter is_SetSession (fst (signUpWithEmail be em pw)) = []"
  by (simp add: signUpWithEmail_unfold catch_error_def split: reply.splits option.splits)

lemma createOrUpdateUser_Some:
  assumes "snd (createOrUpdateUser be p) = Some u"
    and "select_user be (su_id p) = Resolves q"
    and "select_data q = Some d"
  shows "transformDatabaseUser (Some d) = Some u"
  using assms
  by (auto simp: createOrUpdateUser_def fetchUserWithRelations_def Let_def
      split: reply.splits option.splits)

section \<open>The claims\<close>

subsection \<open>The transformation\<close>

text \<open>
  C1, as the code has it. \<open>transformDatabaseUser\<close> reads nothing but its argument, and
  every record yields a User: the identity fields and the timestamps are copied, and a
  materialized user is the transformation of the fetched row. A profile or preferences
  relation that is absent or null gives the defaults, and so does each of their columns
  that is null, whatever the other columns hold: null for the four scalars and
  \<open>genetics\<close>, the empty list for the four lists, the constants \<open>concise\<close>, \<open>mid\<close>,
  \<open>safety\<close> and the notification settings. In a points row a null total gives the total
  0 and the threshold 100, and a null level gives the level 1 and the first title; in a
  streaks row a null count gives 0 and a null date gives null. A points or streaks
  relation that is absent or null gives no default: the field of the User is
  \<open>undefined\<close>.
\<close>

theorem transformDatabaseUser_total_defaults:
  "(\<exists>u. transformDatabaseUser (Some R) = Some u \<and> id_field u = db_id R
        \<and> email u = db_email R \<and> is_anonymous u = db_is_anonymous R
        \<and> createdAt u = db_created_at R \<and> updatedAt u = db_updated_at R)
   \<and> (snd (createOrUpdateUser be a) = None
        \<or> (\<exists>q. select_user be (su_id a) = Resolves q \<and> select_data q \<noteq> None
              \<and> snd (createOrUpdateUser be a) = transformDatabaseUser (select_data q)))
   \<and> map_option profile (transformDatabaseUser (Some (R\<lparr>db_profile := None\<rparr>))) =
       Some \<lparr>firstName = None, lastName = None, age = None, gender = None,
             healthGoals = [], conditions = [], medications = [], allergies = [],
             genetics = None\<rparr>
   \<and> map_option preferences (transformDatabaseUser (Some (R\<lparr>db_preferences := None\<rparr>))) =
       Some \<lparr>aiResponseStyle = ''concise'', budgetRange = ''mid'', primaryFocus = ''safety'',
             notifications = \<lparr>push_enabled = True, email_enabled = True,
                              reminder_frequency = ''daily''\<rparr>\<rparr>
   \<and> map_option (firstName \<circ> profile) (transformDatabaseUser
         (Some (R\<lparr>db_profile := Some (p\<lparr>pf_first_name := None\<rparr>)\<rparr>))) = Some None
   \<and> map_option (lastName \<circ> profile) (transformDatabaseUser
         (Some (R\<lparr>db_profile := Some (p\<lparr>pf_last_name := None\<rparr>)\<rparr>))) = Some None
   \<and> map_option (age \<circ> profile) (transformDatabaseUser
         (Some (R\<lparr>db_profile := Some (p\<lparr>pf_age := None\<rparr>)\<rparr>))) = Some None
   \<and> map_option (gender \<circ> profile) (transformDatabaseUser
         (Some (R\<lparr>db_profile := Some (p\<lparr>pf_gender := None\<rparr>)\<rparr>))) = Some None
   \<and> map_option (healthGoals \<circ> profile) (transformDatabaseUser
         (Some (R\<lparr>db_profile := Some (p\<lparr>pf_health_goals := None\<rparr>)\<rparr>))) = Some []
   \<and> map_option (conditions \<circ> profile) (transformDatabaseUser
         (Some (R\<lparr>db_profile := Some (p\<lparr>pf_conditions := None\<rparr>)\<rparr>))) = Some []
   \<and> map_option (medications \<circ> profile) (transformDatabaseUser
         (Some (R\<lparr>db_profile := Some (p\<lparr>pf_medications := None\<rparr>)\<rparr>))) = Some []
   \<and> map_option (allergies \<circ> profile) (transformDatabaseUser
         (Some (R\<lparr>db_profile := Some (p\<lparr>pf_allergies := None\<rparr>)\<rparr>))) = Some []
   \<and> map_option (genetics \<circ> profile) (transformDatabaseUser
         (Some (R\<lparr>db_profile := Some (p\<lparr>pf_genetics := None\<rparr>)\<rparr>))) = Some None
   \<and> map_option (aiResponseStyle \<circ> preferences) (transformDatabaseUser
         (Some (R\<lparr>db_preferences := Some (q\<lparr>pref_ai_response_style := None\<rparr>)\<rparr>)))
       = Some ''concise''
   \<and> map_option (budgetRange \<circ> preferences) (transformDatabaseUser
         (Some (R\<lparr>db_preferences := Some (q\<lparr>pref_budget_range := None\<rparr>)\<rparr>)))
       = Some ''mid''
   \<and> map_option (primaryFocus \<circ> preferences) (transformDatabaseUser
         (Some (R\<lparr>db_preferences := Some (q\<lparr>pref_primary_focus := None\<rparr>)\<rparr>)))
       = Some ''safety''
   \<and> map_option (notifications \<circ> preferences) (transformDatabaseUser
         (Some (R\<lparr>db_preferences := Some (q\<lparr>pref_notifications := None\<rparr>)\<rparr>)))
       = Some \<lparr>push_enabled = True, email_enabled = True, reminder_frequency = ''daily''\<rparr>
   \<and> map_option (map_option total_field \<circ> points) (transformDatabaseUser
         (Some (R\<lparr>db_points := Some (r\<lparr>pts_total_points := None\<rparr>)\<rparr>)))
       = Some (Some (Num 0))
   \<and> map_option (map_option nextLevelAt \<circ> points) (transformDatabaseUser
         (Some (R\<lparr>db_points := Some (r\<lparr>pts_total_points := None\<rparr>)\<rparr>)))
       = Some (Some (Num 100))
   \<and> map_option (map_option level \<circ> points) (transformDatabaseUser
         (Some (R\<lparr>db_points := Some (r\<lparr>pts_level := None\<rparr>)\<rparr>)))
       = Some (Some (Num 1))
   \<and> map_option (map_option levelTitle \<circ> points) (transformDatabaseUser
         (Some (R\<lparr>db_points := Some (r\<lparr>pts_level := None\<rparr>)\<rparr>)))
       = Some (Some (Some ''Health Novice''))
   \<and> map_option (map_option current \<circ> streaks) (transformDatabaseUser
         (Some (R\<lparr>db_streaks := Some (s\<lparr>st_current_streak := None\<rparr>)\<rparr>)))
       = Some (Some (Num 0))
   \<and> map_option (map_option longest \<circ> streaks) (transformDatabaseUser
         (Some (R\<lparr>db_streaks := Some (s\<lparr>st_longest_streak := None\<rparr>)\<rparr>)))
       = Some (Some (Num 0))
   \<and> map_option (map_option lastActivity \<circ> streaks) (transformDatabaseUser
         (Some (R\<lparr>db_streaks := Some (s\<lparr>st_last_activity_date := None\<rparr>)\<rparr>)))
       = Some (Some None)
   \<and> map_option points (transformDatabaseUser (Some (R\<lparr>db_points := None\<rparr>))) = Some None
   \<and> map_option streaks (transformDatabaseUser (Some (R\<lparr>db_streaks := None\<rparr>))) = Some None"
proof -
  have copied: "\<exists>u. transformDatabaseUser (Some R) = Some u \<and> id_field u = db_id R
        \<and> email u = db_email R \<and> is_anonymous u = db_is_anonymous R
        \<and> createdAt u = db_created_at R \<and> updatedAt u = db_updated_at R"
    by simp
  have relations:
    "map_option profile (transformDatabaseUser (Some (R\<lparr>db_profile := None\<rparr>))) =
       Some \<lparr>firstName = None, lastName = None, age = None, gender = None,
             healthGoals = [], conditions = [], medications = [], allergies = [],
             genetics = None\<rparr>"
    "map_option preferences (transformDatabaseUser (Some (R\<lparr>db_preferences := None\<rparr>))) =
       Some \<lparr>aiResponseStyle = ''concise'', budgetRange = ''mid'', primaryFocus = ''safety'',
             notifications = \<lparr>push_enabled = True, email_enabled = True,
                              reminder_frequency = ''daily''\<rparr>\<rparr>"
    "map_option points (transformDatabaseUser (Some (R\<lparr>db_points := None\<rparr>))) = Some None"
    "map_option streaks (transformDatabaseUser (Some (R\<lparr>db_streaks := None\<rparr>))) = Some None"
    by (simp_all add: default_notifications_def)
  have profile_columns:
    "map_option (firstName \<circ> profile) (transformDatabaseUser
         (Some (R\<lparr>db_profile := Some (p\<lparr>pf_first_name := None\<rparr>)\<rparr>))) = Some None"
    "map_option (lastName \<circ> profile) (transformDatabaseUser
         (Some (R\<lparr>db_profile := Some (p\<lparr>pf_last_name := None\<rparr>)\<rparr>))) = Some None"
    "map_option (age \<circ> profile) (transformDatabaseUser
         (Some (R\<lparr>db_profile := Some (p\<lparr>pf_age := None\<rparr>)\<rparr>))) = Some None"
    "map_option (gender \<circ> profile) (transformDatabaseUser
         (Some (R\<lparr>db_profile := Some (p\<lparr>pf_gender := None\<rparr>)\<rparr>))) = Some None"
    "map_option (healthGoals \<circ> profile) (transformDatabaseUser
         (Some (R\<lparr>db_profile := Some (p\<lparr>pf_health_goals := None\<rparr>)\<rparr>))) = Some []"
    "map_option (conditions \<circ> profile) (transformDatabaseUser
         (Some (R\<lparr>db_profile := Some (p\<lparr>pf_conditions := None\<rparr>)\<rparr>))) = Some []"
    "map_option (medications \<circ> profile) (transformDatabaseUser
         (Some (R\<lparr>db_profile := Some (p\<lparr>pf_medications := None\<rparr>)\<rparr>))) = Some []"
    "map_option (allergies \<circ> profile) (transformDatabaseUser
         (Some (R\<lparr>db_profile := Some (p\<lparr>pf_allergies := None\<rparr>)\<rparr>))) = Some []"
    "map_option (genetics \<circ> profile) (transformDatabaseUser
         (Some (R\<lparr>db_profile := Some (p\<lparr>pf_genetics := None\<rparr>)\<rparr>))) = Some None"
    by (simp_all add: obj_or_def json_or_null_def)
  have preferences_columns:
    "map_option (aiResponseStyle \<circ> preferences) (transformDatabaseUser
         (Some (R\<lparr>db_preferences := Some (q\<lparr>pref_ai_response_style := None\<rparr>)\<rparr>)))
       = Some ''concise''"
    "map_option (budgetRange \<circ> preferences) (transformDatabaseUser
         (Some (R\<lparr>db_preferences := Some (q\<lparr>pref_budget_range := None\<rparr>)\<rparr>)))
       = Some ''mid''"
    "map_option (primaryFocus \<circ> preferences) (transformDatabaseUser
         (Some (R\<lparr>db_preferences := Some (q\<lparr>pref_primary_focus := None\<rparr>)\<rparr>)))
       = Some ''safety''"
    "map_option (notifications \<circ> preferences) (transformDatabaseUser
         (Some (R\<lparr>db_preferences := Some (q\<lparr>pref_notifications := None\<rparr>)\<rparr>)))
       = Some \<lparr>push_enabled = True, email_enabled = True, reminder_frequency = ''daily''\<rparr>"
    by (simp_all add: obj_or_def str_or_def default_notifications_def)
  have points_columns:
    "map_option (map_option total_field \<circ> points) (transformDatabaseUser
         (Some (R\<lparr>db_points := Some (r\<lparr>pts_total_points := None\<rparr>)\<rparr>)))
       = Some (Some (Num 0))"
    "map_option (map_option nextLevelAt \<circ> points) (transformDatabaseUser
         (Some (R\<lparr>db_points := Some (r\<lparr>pts_total_points := None\<rparr>)\<rparr>)))
       = Some (Some (Num 100))"
    "map_option (map_option level \<circ> points) (transformDatabaseUser
         (Some (R\<lparr>db_points := Some (r\<lparr>pts_level := None\<rparr>)\<rparr>)))
       = Some (Some (Num 1))"
    "map_option (map_option levelTitle \<circ> points) (transformDatabaseUser
         (Some (R\<lparr>db_points := Some (r\<lparr>pts_level := None\<rparr>)\<rparr>)))
       = Some (Some (Some ''Health Novice''))"
    by (simp_all add: num_or_def next_level_default getLevelTitle_default
        del: js_divide.simps js_plus.simps js_times.simps js_floor.simps)
  have streaks_columns:
    "map_option (map_option current \<circ> streaks) (transformDatabaseUser
         (Some (R\<lparr>db_streaks := Some (s\<lparr>st_current_streak := None\<rparr>)\<rparr>)))
       = Some (Some (Num 0))"
    "map_option (map_option longest \<circ> streaks) (transformDatabaseUser
         (Some (R\<lparr>db_streaks := Some (s\<lparr>st_longest_streak := None\<rparr>)\<rparr>)))
       = Some (Some (Num 0))"
    "map_option (map_option lastActivity \<circ> streaks) (transformDatabaseUser
         (Some (R\<lparr>db_streaks := Some (s\<lparr>st_last_activity_date := None\<rparr>)\<rparr>)))
       = Some (Some None)"
    by (simp_all add: num_or_def)
  from copied createOrUpdateUser_result [of be a] relations profile_columns
    preferences_columns points_columns streaks_columns
  show ?thesis by blast
qed

text \<open>
  C1, as stated, fails on a record without points and streaks rows: the two fields of the
  resulting User are \<open>undefined\<close>, which is neither an empty list, nor null, nor a constant
  of the transformation.
\<close>

theorem transformDatabaseUser_undefined_counterexample:
  "map_option points (transformDatabaseUser (Some bare_record)) = Some None
   \<and> map_option streaks (transformDatabaseUser (Some bare_record)) = Some None"
  by (simp add: bare_record_def)

text \<open>
  C2, as the code has it. For an integer level \<open>L \<ge> 1\<close> the title is the entry
  \<open>min (L - 1) 9\<close> of the ten titles, so that every level from 11 on has the last one, and
  the User derived from a points row with that level carries this title. For an integer
  total \<open>P\<close> of magnitude below \<open>2\<^sup>5\<^sup>3\<close>, the range in which a double holds every integer,
  the User derived from a points row with that total has the threshold
  \<open>100 * (P div 100 + 1)\<close>, where \<open>div\<close> rounds down.
\<close>

theorem level_title_and_next_level:
  assumes "1 \<le> L" and "\<bar>P\<bar> < 2 ^ 53"
  shows "getLevelTitle (Num (of_int L)) = Some (titles ! nat (min (L - 1) 9))
    \<and> length titles = 10
    \<and> getLevelTitle (Num (of_int (L + 10))) = Some (titles ! 9)
    \<and> round_double (of_int P) = Num (of_int P)
    \<and> (\<exists>u pts. transformDatabaseUser (Some (R\<lparr>db_points := Some
            \<lparr>pts_total_points = tp, pts_level = Some (Num (of_int L))\<rparr>\<rparr>)) = Some u
          \<and> points u = Some pts \<and> level pts = Num (of_int L)
          \<and> levelTitle pts = Some (titles ! nat (min (L - 1) 9)))
    \<and> (\<exists>u pts. transformDatabaseUser (Some (R\<lparr>db_points := Some
            \<lparr>pts_total_points = Some (Num (of_int P)), pts_level = lv\<rparr>\<rparr>)) = Some u
          \<and> points u = Some pts \<and> total_field pts = Num (of_int P)
          \<and> nextLevelAt pts = Num (of_int (100 * (P div 100 + 1))))"
proof -
  have a: "getLevelTitle (Num (of_int L)) = Some (titles ! nat (min (L - 1) 9))"
    using assms(1) by (rule getLevelTitle_clamped)
  have "1 \<le> L + 10" using assms(1) by simp
  then have "getLevelTitle (Num (of_int (L + 10))) = Some (titles ! nat (min (L + 10 - 1) 9))"
    by (rule getLevelTitle_clamped)
  moreover have "min (L + 10 - 1) 9 = 9" using assms(1) by simp
  ultimately have b: "getLevelTitle (Num (of_int (L + 10))) = Some (titles ! 9)" by simp
  have c: "\<exists>u pts. transformDatabaseUser (Some (R\<lparr>db_points := Some
            \<lparr>pts_total_points = tp, pts_level = Some (Num (of_int L))\<rparr>\<rparr>)) = Some u
          \<and> points u = Some pts \<and> level pts = Num (of_int L)
          \<and> levelTitle pts = Some (titles ! nat (min (L - 1) 9))"
    using a by (simp add: num_or_pos [OF assms(1)])
  have d: "\<exists>u pts. transformDatabaseUser (Some (R\<lparr>db_points := Some
            \<lparr>pts_total_points = Some (Num (of_int P)), pts_level = lv\<rparr>\<rparr>)) = Some u
          \<and> points u = Some pts \<and> total_field pts = Num (of_int P)
          \<and> nextLevelAt pts = Num (of_int (100 * (P div 100 + 1)))"
    using next_level_safe [OF assms(2)]
    by (simp add: num_or_zero del: js_divide.simps js_plus.simps js_times.simps js_floor.simps)
  from a b c d length_titles round_double_of_int [OF assms(2)] show ?thesis by blast
qed

theorem level_title_and_next_level_witness:
  "(1::int) \<le> 12 \<and> \<bar>250::int\<bar> < 2 ^ 53
   \<and> getLevelTitle (Num 12) = Some ''PharmaGuide Legend''
   \<and> getLevelTitle (Num 3) = Some ''Supplement Scholar''
   \<and> map_option (map_option nextLevelAt \<circ> points)
        (transformDatabaseUser (Some (bare_record\<lparr>db_points := Some
            \<lparr>pts_total_points = Some (Num 250), pts_level = Some (Num 12)\<rparr>\<rparr>)))
      = Some (Some (Num 300))
   \<and> map_option (map_option levelTitle \<circ> points)
        (transformDatabaseUser (Some (bare_record\<lparr>db_points := Some
            \<lparr>pts_total_points = Some (Num 250), pts_level = Some (Num 12)\<rparr>\<rparr>)))
      = Some (Some (Some ''PharmaGuide Legend''))"
proof -
  have h: "(1::int) \<le> 12" "(1::int) \<le> 3" "\<bar>250::int\<bar> < 2 ^ 53" by simp_all
  from level_title_and_next_level [OF h(1) h(3), where R = bare_record
      and tp = "Some (Num 250)" and lv = "Some (Num 12)"]
    level_title_and_next_level [OF h(2) h(3)]
  show ?thesis
    by (auto simp: titles_def simp del: js_divide.simps js_plus.simps js_times.simps
        js_floor.simps)
qed

text \<open>
  C2, as stated, fails for a total beyond \<open>2\<^sup>5\<^sup>3\<close>. The total 56294995342131296 is a
  double; its hundredth, 562949953421312.96, lies between two doubles an eighth apart
  and rounds up to 562949953421313, so that the threshold is 56294995342131400, while
  \<open>100 * (floor (P / 100) + 1)\<close> is 56294995342131300.
\<close>

theorem next_level_beyond_safe_integers_counterexample:
  "round_double 56294995342131296 = Num 56294995342131296
   \<and> js_divide (Num 56294995342131296) 100 = Num 562949953421313
   \<and> map_option (map_option nextLevelAt \<circ> points)
        (transformDatabaseUser (Some (bare_record\<lparr>db_points := Some
            \<lparr>pts_total_points = Some (Num 56294995342131296), pts_level = None\<rparr>\<rparr>)))
      = Some (Some (Num 56294995342131400))
   \<and> 100 * ((56294995342131296::int) div 100 + 1) = 56294995342131300"
proof -
  have total: "round_double 56294995342131296 = Num 56294995342131296"
    by (rule round_double_exact [where m = 7036874417766412 and s = 3]) simp_all
  have "round_half_even (56294995342131296 / 100 / 2 powi (49 - 52)) = 4503599627370504"
    by code_simp
  then have "round_double (56294995342131296 / 100)
      = Num (of_int 4503599627370504 * 2 powi (49 - 52))"
    by (intro round_double_eqI) (simp_all add: power_int_minus_divide)
  then have quotient: "js_divide (Num 56294995342131296) 100 = Num 562949953421313"
    by (simp add: power_int_minus_divide)
  have floor: "js_floor (Num 562949953421313) = Num 562949953421313"
    by simp
  have "round_double (of_int 562949953421314) = Num (of_int 562949953421314)"
    by (rule round_double_of_int) simp
  then have plus: "js_plus (Num 562949953421313) 1 = Num 562949953421314"
    by simp
  have "round_double 56294995342131400 = Num 56294995342131400"
    by (rule round_double_exact [where m = 7036874417766425 and s = 3]) simp_all
  then have times: "js_times (Num 562949953421314) 100 = Num 56294995342131400"
    by simp
  have threshold:
    "js_times (js_plus (js_floor (js_divide (Num 56294995342131296) 100)) 1) 100
      = Num 56294995342131400"
    unfolding quotient floor plus times ..
  have formula: "100 * ((56294995342131296::int) div 100 + 1) = 56294995342131300"
    by simp
  have "map_option (map_option nextLevelAt \<circ> points)
        (transformDatabaseUser (Some (bare_record\<lparr>db_points := Some
            \<lparr>pts_total_points = Some (Num 56294995342131296), pts_level = None\<rparr>\<rparr>)))
      = Some (Some (Num 56294995342131400))"
    using threshold
    by (simp add: num_or_def del: js_divide.simps js_plus.simps js_times.simps js_floor.simps)
  with total quotient formula show ?thesis by blast
qed

subsection \<open>Loading and error around an operation\<close>

text \<open>
  C3, as the code has it. The four operations with a \<open>finally\<close> block
  (\<open>signInAnonymously\<close>, \<open>signInWithEmail\<close>, \<open>signUpWithEmail\<close>, \<open>signOut\<close>) begin with
  \<open>setLoading(true)\<close> and \<open>setError(null)\<close> and end with \<open>setLoading(false)\<close>, whatever
  the backend replies, so that \<open>loading\<close> is false afterwards. \<open>refreshUser\<close> calls
  neither \<open>setLoading\<close> nor \<open>setError\<close>, and \<open>clearError\<close> is the single call
  \<open>setError(null)\<close>.
\<close>

theorem loading_discipline:
  "take 2 (fst (signInAnonymously be)) = [SetLoading True, SetError None]
   \<and> last (fst (signInAnonymously be)) = SetLoading False
   \<and> loading (run (fst (signInAnonymously be)) st) = False
   \<and> take 2 (fst (signInWithEmail be em pw)) = [SetLoading True, SetError None]
   \<and> last (fst (signInWithEmail be em pw)) = SetLoading False
   \<and> loading (run (fst (signInWithEmail be em pw)) st) = False
   \<and> take 2 (fst (signUpWithEmail be em pw)) = [SetLoading True, SetError None]
   \<and> last (fst (signUpWithEmail be em pw)) = SetLoading False
   \<and> loading (run (fst (signUpWithEmail be em pw)) st) = False
   \<and> take 2 (fst (signOut be)) = [SetLoading True, SetError None]
   \<and> last (fst (signOut be)) = SetLoading False
   \<and> loading (run (fst (signOut be)) st) = False
   \<and> filter is_SetLoading (fst (refreshUser be st)) = []
   \<and> filter is_SetError (fst (refreshUser be st)) = []
   \<and> loading (run (fst (refreshUser be st)) st) = loading st
   \<and> error (run (fst (refreshUser be st)) st) = error st
   \<and> clearError = ([SetError None], Returned)
   \<and> loading (run (fst clearError) st) = loading st"
proof -
  have r: "loading (run (fst (refreshUser be st)) st) = loading st
      \<and> error (run (fst (refreshUser be st)) st) = error st"
    by (simp add: refreshUser_unfold split: reply.splits option.splits)
  have c: "loading (run (fst clearError) st) = loading st"
    by (simp add: clearError_def)
  show ?thesis
    using signInAnonymously_loading [of be st] signInWithEmail_loading [of be em pw st]
      signUpWithEmail_loading [of be em pw st] signOut_loading [of be st]
      refreshUser_untouched [of be st] r c
    by (simp add: clearError_def)
qed

text \<open>
  C3, as stated, fails for \<open>clearError\<close> and \<open>refreshUser\<close>: while the startup is still
  loading, \<open>clearError\<close> leaves \<open>loading\<close> true, and a refresh in a signed-in state with
  an error set calls no \<open>setLoading\<close> and leaves the error in place.
\<close>

theorem clearError_refreshUser_loading_counterexample:
  "loading (initial_state Map.empty) = True
   \<and> loading (run (fst clearError) (initial_state Map.empty)) = True
   \<and> filter is_SetLoading (fst clearError) = []
   \<and> filter is_SetLoading (fst (refreshUser backend_ok signed_in_state)) = []
   \<and> error (run (fst (refreshUser backend_ok
        (signed_in_state\<lparr>error := Some \<lparr>message = ''Failed to sign in'',
           code = ''auth/sign-in-failed'', originalError = nameless_error\<rparr>\<rparr>)))
        (signed_in_state\<lparr>error := Some \<lparr>message = ''Failed to sign in'',
           code = ''auth/sign-in-failed'', originalError = nameless_error\<rparr>\<rparr>))
      = Some \<lparr>message = ''Failed to sign in'', code = ''auth/sign-in-failed'',
          originalError = nameless_error\<rparr>"
  by (simp add: clearError_def initial_state_def refreshUser_unfold signed_in_state_def
      session_principal_def sample_session_def anonymous_principal_def
      fetchUserWithRelations_def backend_ok_def)

subsection \<open>Sign-in with a failed materialization\<close>

text \<open>
  C4, as the code has it. When the backend call of a sign-in or sign-up operation
  succeeds with a principal and materialization returns \<open>null\<close>, the operation returns
  normally, the user is null, no error is set, nothing is persisted, and the session is
  what it was before the call: the operation does not write it. The session is set by
  the subscription handler, and a notification with that principal, materialization
  failing, leaves the new session set and the user null.
\<close>

theorem signIn_materialization_failure:
  assumes "(res, rep) = (signInAnonymously be, auth_signInAnonymously be)
      \<or> (res, rep) = (signInWithEmail be em pw, auth_signInWithPassword be em pw)
      \<or> (res, rep) = (signUpWithEmail be em pw, auth_signUp be em pw)"
    and "rep = Resolves r"
    and "auth_error r = None"
    and "data_user r = Some u"
    and "snd (createOrUpdateUser be u) = None"
  shows "snd res = Returned
    \<and> user (run (fst res) st) = None
    \<and> session (run (fst res) st) = session st
    \<and> error (run (fst res) st) = None
    \<and> loading (run (fst res) st) = False
    \<and> storage (run (fst res) st) = storage st
    \<and> session (run (onAuthStateChange be (Some \<lparr>access_token = t, session_user = Some u\<rparr>)) st)
        = Some \<lparr>access_token = t, session_user = Some u\<rparr>
    \<and> user (run (onAuthStateChange be (Some \<lparr>access_token = t, session_user = Some u\<rparr>)) st)
        = None"
proof -
  have handler:
    "run (onAuthStateChange be (Some \<lparr>access_token = t, session_user = Some u\<rparr>)) st
      = st\<lparr>session := Some \<lparr>access_token = t, session_user = Some u\<rparr>, user := None\<rparr>"
    using assms(5)
    by (simp add: onAuthStateChange_def session_principal_def case_prod_beta run_store_profile)
  from assms(1) consider
    (anon) "res = signInAnonymously be" "rep = auth_signInAnonymously be"
    | (email) "res = signInWithEmail be em pw" "rep = auth_signInWithPassword be em pw"
    | (signup) "res = signUpWithEmail be em pw" "rep = auth_signUp be em pw"
    by auto
  then have "snd res = Returned
      \<and> run (fst res) st = st\<lparr>loading := False, error := None, user := None\<rparr>"
  proof cases
    case anon
    with assms(2-5) show ?thesis
      by (simp add: signInAnonymously_unfold run_store_profile)
  next
    case email
    with assms(2-5) show ?thesis
      by (simp add: signInWithEmail_unfold run_store_profile)
  next
    case signup
    with assms(2-5) show ?thesis
      by (simp add: signUpWithEmail_unfold run_store_profile)
  qed
  with handler show ?thesis by simp
qed

theorem signIn_materialization_failure_witness:
  "auth_signUp backend_rpc_fails ''new@x.com'' ''pw123456''
     = Resolves \<lparr>data_user = Some \<lparr>su_id = ''auth-1'', su_email = Some ''new@x.com''\<rparr>,
         data_session = None, auth_error = None\<rparr>
   \<and> snd (createOrUpdateUser backend_rpc_fails \<lparr>su_id = ''auth-1'', su_email = Some ''new@x.com''\<rparr>)
       = None
   \<and> snd (signUpWithEmail backend_rpc_fails ''new@x.com'' ''pw123456'') = Returned
   \<and> user (run (fst (signUpWithEmail backend_rpc_fails ''new@x.com'' ''pw123456''))
        signed_in_state) = None
   \<and> session (run (fst (signUpWithEmail backend_rpc_fails ''new@x.com'' ''pw123456''))
        signed_in_state) = Some sample_session
   \<and> session (run (fst (signUpWithEmail backend_rpc_fails ''new@x.com'' ''pw123456''))
        (initial_state Map.empty)) = None"
proof -
  let ?u = "\<lparr>su_id = ''auth-1'', su_email = Some ''new@x.com''\<rparr>"
  let ?r = "\<lparr>data_user = Some ?u, data_session = None, auth_error = None\<rparr>"
  have rep: "auth_signUp backend_rpc_fails ''new@x.com'' ''pw123456'' = Resolves ?r"
    by (simp add: backend_rpc_fails_def backend_ok_def)
  have mat: "snd (createOrUpdateUser backend_rpc_fails ?u) = None"
    by (simp add: createOrUpdateUser_def backend_rpc_fails_def backend_ok_def Let_def)
  have sel: "(signUpWithEmail backend_rpc_fails ''new@x.com'' ''pw123456'',
              auth_signUp backend_rpc_fails ''new@x.com'' ''pw123456'')
      = (signInAnonymously backend_rpc_fails, auth_signInAnonymously backend_rpc_fails)
      \<or> (signUpWithEmail backend_rpc_fails ''new@x.com'' ''pw123456'',
              auth_signUp backend_rpc_fails ''new@x.com'' ''pw123456'')
      = (signInWithEmail backend_rpc_fails ''new@x.com'' ''pw123456'',
         auth_signInWithPassword backend_rpc_fails ''new@x.com'' ''pw123456'')
      \<or> (signUpWithEmail backend_rpc_fails ''new@x.com'' ''pw123456'',
              auth_signUp backend_rpc_fails ''new@x.com'' ''pw123456'')
      = (signUpWithEmail backend_rpc_fails ''new@x.com'' ''pw123456'',
         auth_signUp backend_rpc_fails ''new@x.com'' ''pw123456'')"
    by simp
  have a: "auth_error ?r = None" and b: "data_user ?r = Some ?u" by simp_all
  note th = signIn_materialization_failure [OF sel rep a b mat]
  show ?thesis
    using rep mat th [of signed_in_state] th [of "initial_state Map.empty"]
    by (simp add: signed_in_state_def initial_state_def)
qed

text \<open>
  C4, as stated, fails where no session was set before the call. A sign-up from the
  initial state whose reply carries a principal and no session (the account awaits
  confirmation), with the remote procedure failing, returns normally and leaves both
  user and session null.
\<close>

theorem signUp_session_counterexample:
  "auth_signUp backend_rpc_fails ''new@x.com'' ''pw123456''
     = Resolves \<lparr>data_user = Some \<lparr>su_id = ''auth-1'', su_email = Some ''new@x.com''\<rparr>,
         data_session = None, auth_error = None\<rparr>
   \<and> snd (createOrUpdateUser backend_rpc_fails
        \<lparr>su_id = ''auth-1'', su_email = Some ''new@x.com''\<rparr>) = None
   \<and> snd (signUpWithEmail backend_rpc_fails ''new@x.com'' ''pw123456'') = Returned
   \<and> user (run (fst (signUpWithEmail backend_rpc_fails ''new@x.com'' ''pw123456''))
        (initial_state Map.empty)) = None
   \<and> session (run (fst (signUpWithEmail backend_rpc_fails ''new@x.com'' ''pw123456''))
        (initial_state Map.empty)) = None"
proof -
  let ?u = "\<lparr>su_id = ''auth-1'', su_email = Some ''new@x.com''\<rparr>"
  have rep: "auth_signUp backend_rpc_fails ''new@x.com'' ''pw123456''
     = Resolves \<lparr>data_user = Some ?u, data_session = None, auth_error = None\<rparr>"
    by (simp add: backend_rpc_fails_def backend_ok_def)
  have mat: "snd (createOrUpdateUser backend_rpc_fails ?u) = None"
    by (simp add: createOrUpdateUser_def backend_rpc_fails_def backend_ok_def Let_def)
  show ?thesis
    using rep mat
    by (simp add: signUpWithEmail_unfold run_store_profile initial_state_def)
qed

subsection \<open>Sign-out and the no-session notification\<close>

text \<open>
  C5. After a \<open>signOut\<close> that returns normally, the user is null, the session is null and
  the key \<open>current_user_id\<close> is absent from the local store, whatever the state before.
\<close>

theorem signOut_success_clears:
  assumes "snd (signOut be) = Returned"
  shows "user (run (fst (signOut be)) st) = None
    \<and> session (run (fst (signOut be)) st) = None
    \<and> storage (run (fst (signOut be)) st) ''current_user_id'' = None"
  using assms by (simp add: signOut_unfold split: reply.splits option.splits)

theorem signOut_success_clears_witness:
  "snd (signOut backend_ok) = Returned
   \<and> user signed_in_state = transformDatabaseUser (Some bare_record)
   \<and> session signed_in_state = Some sample_session
   \<and> storage signed_in_state ''current_user_id'' = Some ''user-1''
   \<and> user (run (fst (signOut backend_ok)) signed_in_state) = None
   \<and> session (run (fst (signOut backend_ok)) signed_in_state) = None
   \<and> storage (run (fst (signOut backend_ok)) signed_in_state) ''current_user_id'' = None"
proof -
  have ok: "snd (signOut backend_ok) = Returned"
    by (simp add: signOut_unfold backend_ok_def)
  show ?thesis
    using ok signOut_success_clears [OF ok, of signed_in_state]
    by (simp add: signed_in_state_def)
qed

text \<open>
  C6. A notification that carries no session, or a session without a principal, makes
  the handler perform exactly \<open>setSession(null)\<close>, \<open>setUser(null)\<close> and the removal of
  \<open>current_user_id\<close>: afterwards user and session are null and the key is absent,
  whatever they were, and neither the backend's sign-out nor any step of \<open>signOut\<close>
  other than these three takes place.
\<close>

theorem onAuthStateChange_no_session:
  assumes "session_principal s = None"
  shows "onAuthStateChange be s =
      [SetSession None, SetUser None, StorageRemoveItem ''current_user_id'']
    \<and> user (run (onAuthStateChange be s) st) = None
    \<and> session (run (onAuthStateChange be s) st) = None
    \<and> storage (run (onAuthStateChange be s) st) ''current_user_id'' = None
    \<and> filter (\<lambda>e. e = CallSignOut) (onAuthStateChange be s) = []
    \<and> loading (run (onAuthStateChange be s) st) = loading st
    \<and> error (run (onAuthStateChange be s) st) = error st"
  using assms by (simp add: onAuthStateChange_def)

theorem onAuthStateChange_no_session_witness:
  "session_principal None = None
   \<and> user signed_in_state = transformDatabaseUser (Some bare_record)
   \<and> session signed_in_state = Some sample_session
   \<and> storage signed_in_state ''current_user_id'' = Some ''user-1''
   \<and> user (run (onAuthStateChange backend_ok None) signed_in_state) = None
   \<and> session (run (onAuthStateChange backend_ok None) signed_in_state) = None
   \<and> storage (run (onAuthStateChange backend_ok None) signed_in_state) ''current_user_id''
       = None
   \<and> onAuthStateChange backend_ok None \<noteq> fst (signOut backend_ok)"
proof -
  have none: "session_principal None = None"
    by (simp add: session_principal_def)
  show ?thesis
    using none onAuthStateChange_no_session [OF none, of backend_ok signed_in_state]
    by (simp add: signed_in_state_def signOut_unfold backend_ok_def)
qed

text \<open>
  C10. When the backend's sign-out rejects or reports an error, \<open>signOut\<close> performs
  \<open>setLoading(true)\<close>, \<open>setError(null)\<close>, the backend call, the structured error and
  \<open>setLoading(false)\<close>, and throws: user, session and the local store are what they were.
  In every run the backend call comes third, before anything is cleared.
\<close>

theorem signOut_failure_keeps_state:
  assumes "auth_signOut be = Rejects e \<or> auth_signOut be = Resolves (Some e)"
  shows "fst (signOut be) =
      [SetLoading True, SetError None, CallSignOut,
       catch_error e ''Failed to sign out'' ''auth/sign-out-failed'', SetLoading False]
    \<and> snd (signOut be) = Threw e
    \<and> user (run (fst (signOut be)) st) = user st
    \<and> session (run (fst (signOut be)) st) = session st
    \<and> storage (run (fst (signOut be)) st) = storage st
    \<and> error (run (fst (signOut be)) st) =
        Some \<lparr>message = str_or (be_message e) ''Failed to sign out'',
              code = str_or (be_code e) ''auth/sign-out-failed'', originalError = e\<rparr>
    \<and> loading (run (fst (signOut be)) st) = False"
  using assms by (auto simp: signOut_unfold catch_error_def)

theorem signOut_failure_keeps_state_witness:
  "auth_signOut backend_signout_fails = Resolves (Some nameless_error)
   \<and> snd (signOut backend_signout_fails) = Threw nameless_error
   \<and> user (run (fst (signOut backend_signout_fails)) signed_in_state)
       = transformDatabaseUser (Some bare_record)
   \<and> session (run (fst (signOut backend_signout_fails)) signed_in_state) = Some sample_session
   \<and> storage (run (fst (signOut backend_signout_fails)) signed_in_state) ''current_user_id''
       = Some ''user-1''
   \<and> error (run (fst (signOut backend_signout_fails)) signed_in_state)
       = Some \<lparr>message = ''Failed to sign out'', code = ''auth/sign-out-failed'',
               originalError = nameless_error\<rparr>"
proof -
  have rep: "auth_signOut backend_signout_fails = Resolves (Some nameless_error)"
    by (simp add: backend_signout_fails_def)
  then have dis: "auth_signOut backend_signout_fails = Rejects nameless_error
      \<or> auth_signOut backend_signout_fails = Resolves (Some nameless_error)"
    by simp
  have before: "user signed_in_state = transformDatabaseUser (Some bare_record)"
    "session signed_in_state = Some sample_session"
    "storage signed_in_state ''current_user_id'' = Some ''user-1''"
    by (simp_all add: signed_in_state_def)
  have defaults: "str_or (be_message nameless_error) ''Failed to sign out'' = ''Failed to sign out''"
    "str_or (be_code nameless_error) ''auth/sign-out-failed'' = ''auth/sign-out-failed''"
    by (simp_all add: nameless_error_def str_or_def)
  from signOut_failure_keeps_state [OF dis, of signed_in_state]
  have "snd (signOut backend_signout_fails) = Threw nameless_error"
    and "user (run (fst (signOut backend_signout_fails)) signed_in_state) = user signed_in_state"
    and "session (run (fst (signOut backend_signout_fails)) signed_in_state)
      = session signed_in_state"
    and "storage (run (fst (signOut backend_signout_fails)) signed_in_state)
      = storage signed_in_state"
    and "error (run (fst (signOut backend_signout_fails)) signed_in_state) =
        Some \<lparr>message = str_or (be_message nameless_error) ''Failed to sign out'',
              code = str_or (be_code nameless_error) ''auth/sign-out-failed'',
              originalError = nameless_error\<rparr>"
    by blast+
  with rep before defaults show ?thesis by simp
qed

subsection \<open>The anonymous flag\<close>

text \<open>The remote procedure keeps one record per principal: a second call with the same
  arguments changes nothing.\<close>

lemma create_user_with_profile_idempotent:
  "create_user_with_profile fresh (create_user_with_profile fresh users i e f) i e f
    = create_user_with_profile fresh users i e f"
  by (simp add: create_user_with_profile_def split: option.splits)

lemma select_after_create:
  "select_by_auth_id (create_user_with_profile fresh users i e f) i =
    \<lparr>select_data = Some ((case users i of None \<Rightarrow> fresh | Some row \<Rightarrow> row)
        \<lparr>db_auth_id := i, db_email := e, db_is_anonymous := f\<rparr>), select_error = None\<rparr>"
  by (simp add: select_by_auth_id_def create_user_with_profile_def)

text \<open>
  C7. Materialization begins with the remote procedure, called with the principal's id,
  with the email or null, and with a flag that is true exactly when the email passed is
  null: when the principal has no email, the empty string being no email to the code as
  it is to \<open>authUser.email || null\<close>. After an anonymous sign-in, whose principal has no
  email, let the procedure succeed on the call that the code makes and let the query
  answer from the relation as the procedure leaves it after that call: then the sign-in
  returns, the user is set, is anonymous and has the email null, and its id is persisted.
\<close>

theorem createOrUpdateUser_anonymous_flag:
  "hd (fst (createOrUpdateUser be a)) =
      CallRpc (su_id a) (str_or_null (su_email a)) (str_or_null (su_email a) = None)
   \<and> (str_or_null (su_email a) = None) = (su_email a = None \<or> su_email a = Some '''')
   \<and> (auth_signInAnonymously be = Resolves r \<longrightarrow> auth_error r = None \<longrightarrow>
       data_user r = Some p \<longrightarrow> str_or_null (su_email p) = None \<longrightarrow>
       hd (fst (createOrUpdateUser be p)) = CallRpc i e f \<longrightarrow>
       rpc_create_user_with_profile be i e f = Resolves rr \<longrightarrow> rpc_error rr = None \<longrightarrow>
       select_user be i =
         Resolves (select_by_auth_id (create_user_with_profile fresh users i e f) i) \<longrightarrow>
         (\<exists>u. snd (signInAnonymously be) = Returned
            \<and> user (run (fst (signInAnonymously be)) st) = Some u
            \<and> is_anonymous u = True \<and> email u = None
            \<and> storage (run (fst (signInAnonymously be)) st) ''current_user_id''
                = Some (id_field u)))"
proof -
  have flag: "(\<not> str_truthy (su_email x)) = (str_or_null (su_email x) = None)" for x
    by (auto simp: str_or_null_def str_truthy_def split: option.splits)
  have call: "hd (fst (createOrUpdateUser be x)) =
      CallRpc (su_id x) (str_or_null (su_email x)) (str_or_null (su_email x) = None)" for x
    using createOrUpdateUser_effects [of be x] flag [of x] by auto
  have passed: "(str_or_null (su_email a) = None) = (su_email a = None \<or> su_email a = Some '''')"
    by (auto simp: str_or_null_def str_truthy_def split: option.splits)
  have rest: "\<exists>u. snd (signInAnonymously be) = Returned
      \<and> user (run (fst (signInAnonymously be)) st) = Some u
      \<and> is_anonymous u = True \<and> email u = None
      \<and> storage (run (fst (signInAnonymously be)) st) ''current_user_id'' = Some (id_field u)"
    if rep: "auth_signInAnonymously be = Resolves r" "auth_error r = None"
        "data_user r = Some p"
      and anon: "str_or_null (su_email p) = None"
      and made: "hd (fst (createOrUpdateUser be p)) = CallRpc i e f"
      and rpc: "rpc_create_user_with_profile be i e f = Resolves rr" "rpc_error rr = None"
      and sel: "select_user be i =
         Resolves (select_by_auth_id (create_user_with_profile fresh users i e f) i)"
  proof -
    from made call [of p] anon have args: "i = su_id p" "e = None" "f = True"
      by simp_all
    define d where "d = (case users i of None \<Rightarrow> fresh | Some row \<Rightarrow> row)
        \<lparr>db_auth_id := i, db_email := e, db_is_anonymous := f\<rparr>"
    have sel': "select_user be (su_id p) = Resolves \<lparr>select_data = Some d, select_error = None\<rparr>"
      using sel args(1) by (simp add: select_after_create d_def)
    have rpc': "rpc_create_user_with_profile be (su_id p) (str_or_null (su_email p))
        (\<not> str_truthy (su_email p)) = Resolves rr"
      using rpc(1) args anon flag [of p] by simp
    have mat: "snd (createOrUpdateUser be p) = transformDatabaseUser (Some d)"
      using rpc' rpc(2) sel'
      by (simp add: createOrUpdateUser_def fetchUserWithRelations_def Let_def)
    obtain u where u: "transformDatabaseUser (Some d) = Some u" by simp
    then have "is_anonymous u = True \<and> email u = None"
      using args by (auto simp: d_def)
    with rep mat u show ?thesis
      by (simp add: signInAnonymously_unfold run_store_profile)
  qed
  from call [of a] passed rest show ?thesis by blast
qed

theorem createOrUpdateUser_anonymous_flag_witness:
  "auth_signInAnonymously backend_ok =
      Resolves \<lparr>data_user = Some anonymous_principal, data_session = Some sample_session,
                auth_error = None\<rparr>
   \<and> str_or_null (su_email anonymous_principal) = None
   \<and> hd (fst (createOrUpdateUser backend_ok anonymous_principal)) = CallRpc ''auth-1'' None True
   \<and> hd (fst (createOrUpdateUser backend_ok blank_email_principal)) = CallRpc ''auth-1'' None True
   \<and> hd (fst (createOrUpdateUser backend_ok \<lparr>su_id = ''auth-2'', su_email = Some ''new@x.com''\<rparr>))
       = CallRpc ''auth-2'' (Some ''new@x.com'') False
   \<and> rpc_create_user_with_profile backend_ok ''auth-1'' None True
       = Resolves \<lparr>rpc_data = Some ''user-1'', rpc_error = None\<rparr>
   \<and> select_user backend_ok ''auth-1'' = Resolves (select_by_auth_id
        (create_user_with_profile (bare_record\<lparr>db_is_anonymous := False\<rparr>) Map.empty
           ''auth-1'' None True) ''auth-1'')
   \<and> map_option is_anonymous (user (run (fst (signInAnonymously backend_ok))
        (initial_state Map.empty))) = Some True
   \<and> map_option email (user (run (fst (signInAnonymously backend_ok))
        (initial_state Map.empty))) = Some None
   \<and> snd (signInAnonymously backend_ok) = Returned"
proof -
  let ?r = "\<lparr>data_user = Some anonymous_principal, data_session = Some sample_session,
             auth_error = None\<rparr>"
  let ?rr = "\<lparr>rpc_data = Some ''user-1'', rpc_error = None\<rparr>"
  let ?fresh = "bare_record\<lparr>db_is_anonymous := False\<rparr>"
  have rep: "auth_signInAnonymously backend_ok = Resolves ?r"
    by (simp add: backend_ok_def)
  have ok: "auth_error ?r = None" "data_user ?r = Some anonymous_principal" by simp_all
  have anon: "str_or_null (su_email anonymous_principal) = None"
    by (simp add: anonymous_principal_def str_or_null_def str_truthy_def)
  note th = createOrUpdateUser_anonymous_flag
  have made: "hd (fst (createOrUpdateUser backend_ok anonymous_principal))
      = CallRpc ''auth-1'' None True"
    using th [where be = backend_ok and a = anonymous_principal] anon
    by (simp add: anonymous_principal_def)
  have blank: "hd (fst (createOrUpdateUser backend_ok blank_email_principal))
      = CallRpc ''auth-1'' None True"
    using th [where be = backend_ok and a = blank_email_principal]
    by (simp add: blank_email_principal_def)
  have named: "hd (fst (createOrUpdateUser backend_ok
        \<lparr>su_id = ''auth-2'', su_email = Some ''new@x.com''\<rparr>))
      = CallRpc ''auth-2'' (Some ''new@x.com'') False"
    using th [where be = backend_ok and a = "\<lparr>su_id = ''auth-2'', su_email = Some ''new@x.com''\<rparr>"]
    by (simp add: str_or_null_def str_truthy_def)
  have rpc: "rpc_create_user_with_profile backend_ok ''auth-1'' None True = Resolves ?rr"
    "rpc_error ?rr = None"
    by (simp_all add: backend_ok_def)
  have sel: "select_user backend_ok ''auth-1'' = Resolves (select_by_auth_id
        (create_user_with_profile ?fresh Map.empty ''auth-1'' None True) ''auth-1'')"
    by (simp add: backend_ok_def select_after_create bare_record_def)
  from th [where be = backend_ok and r = ?r and p = anonymous_principal and i = "''auth-1''"
      and e = None and f = True and rr = ?rr and fresh = ?fresh and users = Map.empty
      and st = "initial_state Map.empty"]
    rep ok anon made rpc sel
  obtain u where "snd (signInAnonymously backend_ok) = Returned"
    and "user (run (fst (signInAnonymously backend_ok)) (initial_state Map.empty)) = Some u"
    and "is_anonymous u = True" and "email u = None"
    by blast
  with rep anon made blank named rpc(1) sel show ?thesis by simp
qed

subsection \<open>Refreshing the user\<close>

text \<open>
  C8. \<open>refreshUser\<close> always returns normally and never changes session, error, loading
  or the local store. Without a session that has a principal it does nothing at all.
  With one, it queries the row of that principal: when the query yields a row, the only
  state change is that the user becomes the transformation of that row; when the query
  rejects, reports an error or yields no row, the state is what it was.
\<close>

theorem refreshUser_frame:
  "snd (refreshUser be st) = Returned
   \<and> session (run (fst (refreshUser be st)) st) = session st
   \<and> error (run (fst (refreshUser be st)) st) = error st
   \<and> loading (run (fst (refreshUser be st)) st) = loading st
   \<and> storage (run (fst (refreshUser be st)) st) = storage st
   \<and> (session_principal (session st) = None \<longrightarrow>
        fst (refreshUser be st) = [] \<and> run (fst (refreshUser be st)) st = st)
   \<and> (session_principal (session st) = Some p \<longrightarrow>
        snd (fetchUserWithRelations be (su_id p)) = Resolves (Some d) \<longrightarrow>
        fst (refreshUser be st) =
          [CallSelectUser (su_id p), SetUser (transformDatabaseUser (Some d))]
        \<and> run (fst (refreshUser be st)) st = st\<lparr>user := transformDatabaseUser (Some d)\<rparr>)
   \<and> (session_principal (session st) = Some p \<longrightarrow>
        snd (fetchUserWithRelations be (su_id p)) = Rejects e
          \<or> snd (fetchUserWithRelations be (su_id p)) = Resolves None \<longrightarrow>
        fst (refreshUser be st) = [CallSelectUser (su_id p)]
        \<and> run (fst (refreshUser be st)) st = st)"
proof -
  have frame: "snd (refreshUser be st) = Returned
      \<and> session (run (fst (refreshUser be st)) st) = session st
      \<and> error (run (fst (refreshUser be st)) st) = error st
      \<and> loading (run (fst (refreshUser be st)) st) = loading st
      \<and> storage (run (fst (refreshUser be st)) st) = storage st"
    by (simp add: refreshUser_unfold split: reply.splits option.splits)
  have idle: "fst (refreshUser be st) = [] \<and> run (fst (refreshUser be st)) st = st"
    if "session_principal (session st) = None"
    using that by (simp add: refreshUser_unfold)
  have found: "fst (refreshUser be st) =
        [CallSelectUser (su_id p), SetUser (transformDatabaseUser (Some d))]
      \<and> run (fst (refreshUser be st)) st = st\<lparr>user := transformDatabaseUser (Some d)\<rparr>"
    if "session_principal (session st) = Some p"
      and "snd (fetchUserWithRelations be (su_id p)) = Resolves (Some d)"
    using that by (simp add: refreshUser_unfold)
  have failed: "fst (refreshUser be st) = [CallSelectUser (su_id p)]
      \<and> run (fst (refreshUser be st)) st = st"
    if "session_principal (session st) = Some p"
      and "snd (fetchUserWithRelations be (su_id p)) = Rejects e
        \<or> snd (fetchUserWithRelations be (su_id p)) = Resolves None"
    using that by (auto simp: refreshUser_unfold)
  from frame idle found failed show ?thesis by blast
qed

theorem refreshUser_frame_witness:
  "session_principal (session (initial_state Map.empty)) = None
   \<and> refreshUser backend_ok (initial_state Map.empty) = ([], Returned)
   \<and> session_principal (session signed_in_state) = Some anonymous_principal
   \<and> snd (fetchUserWithRelations backend_ok ''auth-1'') = Resolves (Some bare_record)
   \<and> run (fst (refreshUser backend_ok (signed_in_state\<lparr>user := None\<rparr>)))
        (signed_in_state\<lparr>user := None\<rparr>) = signed_in_state
   \<and> snd (fetchUserWithRelations backend_no_row ''auth-1'') = Resolves None
   \<and> fst (refreshUser backend_no_row signed_in_state) = [CallSelectUser ''auth-1'']
   \<and> run (fst (refreshUser backend_no_row signed_in_state)) signed_in_state = signed_in_state"
proof -
  have none: "session_principal (session (initial_state Map.empty)) = None"
    by (simp add: initial_state_def session_principal_def)
  have some: "session_principal (session (signed_in_state\<lparr>user := None\<rparr>))
      = Some anonymous_principal"
    "session_principal (session signed_in_state) = Some anonymous_principal"
    by (simp_all add: signed_in_state_def session_principal_def sample_session_def)
  have id: "su_id anonymous_principal = ''auth-1''"
    by (simp add: anonymous_principal_def)
  have row: "snd (fetchUserWithRelations backend_ok ''auth-1'') = Resolves (Some bare_record)"
    by (simp add: fetchUserWithRelations_def backend_ok_def)
  have norow: "snd (fetchUserWithRelations backend_no_row ''auth-1'') = Resolves None"
    by (simp add: fetchUserWithRelations_def backend_no_row_def)
  have restored: "signed_in_state\<lparr>user := None, user := transformDatabaseUser (Some bare_record)\<rparr>
      = signed_in_state"
    by (simp add: signed_in_state_def)
  note th = refreshUser_frame
  show ?thesis
    using none some id row norow restored
      th [where be = backend_ok and st = "initial_state Map.empty"]
      th [where be = backend_ok and st = "signed_in_state\<lparr>user := None\<rparr>"
          and p = anonymous_principal and d = bare_record]
      th [where be = backend_no_row and st = signed_in_state and p = anonymous_principal]
    by (simp add: prod_eq_iff)
qed

subsection \<open>Who writes the session\<close>

text \<open>
  C9. None of \<open>signInAnonymously\<close>, \<open>signInWithEmail\<close> and \<open>signUpWithEmail\<close> calls
  \<open>setSession\<close>, on any reply of the backend, so that the session after each of them is
  the session before; \<open>refreshUser\<close> and \<open>clearError\<close> do not call it either. The calls
  are those of the startup, of the subscription handler and of \<open>signOut\<close>.
\<close>

theorem session_written_only_by_init_handler_signOut:
  "filter is_SetSession (fst (signInAnonymously be)) = []
   \<and> filter is_SetSession (fst (signInWithEmail be em pw)) = []
   \<and> filter is_SetSession (fst (signUpWithEmail be em pw)) = []
   \<and> session (run (fst (signInAnonymously be)) st) = session st
   \<and> session (run (fst (signInWithEmail be em pw)) st) = session st
   \<and> session (run (fst (signUpWithEmail be em pw)) st) = session st
   \<and> filter is_SetSession (fst (refreshUser be st)) = []
   \<and> filter is_SetSession (fst clearError) = []
   \<and> filter is_SetSession (initializeAuth backend_ok) = [SetSession (Some sample_session)]
   \<and> filter is_SetSession (onAuthStateChange be (Some sample_session))
       = [SetSession (Some sample_session)]
   \<and> filter is_SetSession (onAuthStateChange be None) = [SetSession None]
   \<and> filter is_SetSession (fst (signOut backend_ok)) = [SetSession None]"
proof -
  have ops: "filter is_SetSession (fst (signInAnonymously be)) = []"
    "filter is_SetSession (fst (signInWithEmail be em pw)) = []"
    "filter is_SetSession (fst (signUpWithEmail be em pw)) = []"
    by (rule signInAnonymously_no_SetSession signInWithEmail_no_SetSession
        signUpWithEmail_no_SetSession)+
  then have kept: "session (run (fst (signInAnonymously be)) st) = session st"
    "session (run (fst (signInWithEmail be em pw)) st) = session st"
    "session (run (fst (signUpWithEmail be em pw)) st) = session st"
    by (simp_all only: session_run_frame)
  have others: "filter is_SetSession (fst (refreshUser be st)) = []"
    "filter is_SetSession (fst clearError) = []"
    using refreshUser_untouched [of be st] by (simp_all add: clearError_def)
  have init: "filter is_SetSession (initializeAuth backend_ok) = [SetSession (Some sample_session)]"
    by (simp add: initializeAuth_def backend_ok_def sample_session_def case_prod_beta)
  have handler: "filter is_SetSession (onAuthStateChange be (Some sample_session))
      = [SetSession (Some sample_session)]"
    "filter is_SetSession (onAuthStateChange be None) = [SetSession None]"
    by (simp_all add: onAuthStateChange_def session_principal_def sample_session_def
        case_prod_beta)
  have out: "filter is_SetSession (fst (signOut backend_ok)) = [SetSession None]"
    by (simp add: signOut_unfold backend_ok_def)
  from ops kept others init handler out show ?thesis by simp
qed

end
